theory Spec2Isabelle
  imports Complex_Main "HOL-Library.Sublist" "HOL-Library.Product_Lexorder"
begin

section \<open>Text primitives of the Python source\<close>

text \<open>
  A Python \<open>str\<close> is the list of its code points, so \<open>len\<close>, slicing, comparison and
  the substring tests are those of the list. White space is the set that \<open>str.isspace\<close>,
  \<open>str.strip\<close>, \<open>str.split\<close> and the regex class \<open>\s\<close> share. What depends on the
  Unicode tables of the interpreter beyond that (the class \<open>\d\<close>, \<open>str.lower\<close>,
  \<open>str.isupper\<close>) and on its string hashes (the iteration order of a set of strings) is
  taken from the record \<open>python\<close>, a parameter of the model.
\<close>

type_synonym pystr = "int list"

definition str :: "string \<Rightarrow> pystr" where
  \<comment> \<open>an ASCII literal of the source\<close>
  "str s = map of_char s"

record python =
  py_isdecimal :: "int \<Rightarrow> bool"
  py_lower :: "pystr \<Rightarrow> pystr"
  py_isupper :: "pystr \<Rightarrow> bool"
  py_list_of_set :: "pystr list \<Rightarrow> pystr list"

definition unicode_whitespace :: "int list" where
  \<comment> \<open>the code points \<open>c\<close> with \<open>chr(c).isspace()\<close>\<close>
  "unicode_whitespace =
     [0x9, 0xA, 0xB, 0xC, 0xD, 0x1C, 0x1D, 0x1E, 0x1F, 0x20, 0x85, 0xA0, 0x1680,
      0x2000, 0x2001, 0x2002, 0x2003, 0x2004, 0x2005, 0x2006, 0x2007, 0x2008, 0x2009, 0x200A,
      0x2028, 0x2029, 0x202F, 0x205F, 0x3000]"

definition is_space :: "int \<Rightarrow> bool" where
  \<comment> \<open>\<open>str.isspace\<close> on one character, and the regex class \<open>\s\<close>\<close>
  "is_space c = (c \<in> set unicode_whitespace)"

definition is_upper_az :: "int \<Rightarrow> bool" where
  \<comment> \<open>the regex class \<open>[A-Z]\<close>\<close>
  "is_upper_az c = (65 \<le> c \<and> c \<le> 90)"

definition strip :: "pystr \<Rightarrow> pystr" where
  \<comment> \<open>\<open>str.strip()\<close>\<close>
  "strip s = rev (dropWhile is_space (rev (dropWhile is_space s)))"

definition startswith :: "pystr \<Rightarrow> pystr \<Rightarrow> bool" where
  \<comment> \<open>\<open>s.startswith(p)\<close>\<close>
  "startswith s p = prefix p s"

definition endswith :: "pystr \<Rightarrow> pystr \<Rightarrow> bool" where
  \<comment> \<open>\<open>s.endswith(p)\<close>\<close>
  "endswith s p = prefix (rev p) (rev s)"

fun str_in :: "pystr \<Rightarrow> pystr \<Rightarrow> bool" where
  \<comment> \<open>\<open>sub in s\<close>\<close>
  "str_in sub [] = (sub = [])"
| "str_in sub (c # cs) = (prefix sub (c # cs) \<or> str_in sub cs)"

fun split_on :: "int \<Rightarrow> pystr \<Rightarrow> pystr list" where
  \<comment> \<open>\<open>s.split(sep)\<close> for a one-character separator: empty parts are kept\<close>
  "split_on sep [] = [[]]"
| "split_on sep (c # cs) =
     (if c = sep then [] # split_on sep cs
      else (case split_on sep cs of [] \<Rightarrow> [[c]] | p # ps \<Rightarrow> (c # p) # ps))"

fun words_from :: "bool \<Rightarrow> pystr \<Rightarrow> nat" where
  \<comment> \<open>the number of maximal runs of non-space characters; the flag says that a run is open\<close>
  "words_from inw [] = 0"
| "words_from inw (c # cs) =
     (if is_space c then words_from False cs
      else (if inw then 0 else 1) + words_from True cs)"

definition word_count :: "pystr \<Rightarrow> int" where
  \<comment> \<open>\<open>len(s.split())\<close>\<close>
  "word_count s = int (words_from False s)"

fun replace_from :: "pystr \<Rightarrow> pystr \<Rightarrow> nat \<Rightarrow> pystr \<Rightarrow> pystr" where
  \<comment> \<open>the scan of \<open>str.replace\<close>: the counter is the number of characters of a match still to skip\<close>
  "replace_from old new k [] = []"
| "replace_from old new (Suc k) (c # cs) = replace_from old new k cs"
| "replace_from old new 0 (c # cs) =
     (if prefix old (c # cs) then new @ replace_from old new (length old - 1) cs
      else c # replace_from old new 0 cs)"

definition replace :: "pystr \<Rightarrow> pystr \<Rightarrow> pystr \<Rightarrow> pystr" where
  \<comment> \<open>\<open>s.replace(old, new)\<close> for a non-empty \<open>old\<close> (the only use in the source)\<close>
  "replace s old new = replace_from old new 0 s"

fun join :: "pystr \<Rightarrow> pystr list \<Rightarrow> pystr" where
  \<comment> \<open>\<open>sep.join(parts)\<close>\<close>
  "join sep [] = []"
| "join sep [p] = p"
| "join sep (p # q # ps) = p @ sep @ join sep (q # ps)"

definition fullmatch_digits :: "python \<Rightarrow> pystr \<Rightarrow> bool" where
  \<comment> \<open>\<open>re.fullmatch(r'\d+', s)\<close>\<close>
  "fullmatch_digits py s = (s \<noteq> [] \<and> list_all (py_isdecimal py) s)"

definition spaces_then_any :: "pystr \<Rightarrow> bool" where
  \<comment> \<open>the regex tail \<open>\s+[\S\s]*\<close> (and \<open>\s+.*\<close>) under \<open>re.match\<close>: one space is enough\<close>
  "spaces_then_any s = (case s of [] \<Rightarrow> False | c # _ \<Rightarrow> is_space c)"

definition match_numbered_dot :: "python \<Rightarrow> pystr \<Rightarrow> bool" where
  \<comment> \<open>\<open>re.match(r"^\d+\.\s+[\S\s]*", text)\<close>: the greedy \<open>\d+\<close> cannot give a digit back,
      since the next pattern item is the literal dot\<close>
  "match_numbered_dot py s =
     (takeWhile (py_isdecimal py) s \<noteq> [] \<and>
      (case dropWhile (py_isdecimal py) s of [] \<Rightarrow> False
       | c # r \<Rightarrow> c = 0x2E \<and> spaces_then_any r))"

fun dotted_groups_then_space :: "python \<Rightarrow> nat \<Rightarrow> pystr \<Rightarrow> bool" where
  \<comment> \<open>the regex tail \<open>(\.\d+)*\s+[\S\s]*\<close>; the number only bounds the recursion\<close>
  "dotted_groups_then_space py 0 s = spaces_then_any s"
| "dotted_groups_then_space py (Suc n) s =
     (case s of [] \<Rightarrow> False
      | c # r \<Rightarrow>
          if c = 0x2E \<and> takeWhile (py_isdecimal py) r \<noteq> []
          then dotted_groups_then_space py n (dropWhile (py_isdecimal py) r)
          else spaces_then_any s)"

definition match_numbered :: "python \<Rightarrow> pystr \<Rightarrow> bool" where
  \<comment> \<open>\<open>re.match(r"^\d+(\.\d+)*\s+[\S\s]*", text)\<close>\<close>
  "match_numbered py s =
     (takeWhile (py_isdecimal py) s \<noteq> []
      \<and> dotted_groups_then_space py (length s) (dropWhile (py_isdecimal py) s))"

definition match_appendix :: "pystr \<Rightarrow> bool" where
  \<comment> \<open>\<open>re.match(r"^Appendix [A-Z]:\s+.*", text)\<close>\<close>
  "match_appendix s =
     (prefix (str ''Appendix '') s \<and>
      (case drop 9 s of c # d # r \<Rightarrow> is_upper_az c \<and> d = 0x3A \<and> spaces_then_any r
       | _ \<Rightarrow> False))"

section \<open>Floating-point numbers\<close>

text \<open>
  Font sizes, thresholds and coordinates are Python floats (IEEE 754 binary64). A float is
  given by its exact value, a rational, and every arithmetic operation of the source
  rounds its exact result to the nearest float, a tie to the even significand. Comparisons
  are exact. Infinities and NaN do not occur: the values are font sizes and page
  coordinates.
\<close>

definition round_half_even :: "rat \<Rightarrow> int" where
  "round_half_even x =
     (let f = \<lfloor>x\<rfloor>; r = x - of_int f
      in if r < 1 / 2 then f else if 1 / 2 < r then f + 1
         else if even f then f else f + 1)"

definition pow2 :: "int \<Rightarrow> rat" where
  "pow2 k = (if 0 \<le> k then 2 ^ nat k else 1 / 2 ^ nat (- k))"

function ilog2 :: "int \<Rightarrow> int" where
  \<comment> \<open>the floor of the binary logarithm, 0 below 2\<close>
  "ilog2 n = (if n < 2 then 0 else 1 + ilog2 (n div 2))"
  by pat_completeness auto
termination
  by (relation "measure nat") auto

definition binary_exponent :: "rat \<Rightarrow> int" where
  \<comment> \<open>for \<open>a > 0\<close>, the \<open>e\<close> with \<open>2 ^ e \<le> a < 2 ^ (e + 1)\<close>\<close>
  "binary_exponent a =
     (if 1 \<le> a then ilog2 \<lfloor>a\<rfloor>
      else (let m = \<lceil>1 / a\<rceil> in - (if m \<le> 1 then 0 else 1 + ilog2 (m - 1))))"

definition fl :: "rat \<Rightarrow> rat" where
  \<comment> \<open>the float nearest to \<open>x\<close>: 53 significant bits, least exponent -1022\<close>
  "fl x =
     (if x = 0 then 0
      else (let a = \<bar>x\<bar>; ulp = pow2 (max (binary_exponent a) (- 1022) - 52)
            in sgn x * of_int (round_half_even (a / ulp)) * ulp))"

definition fadd :: "rat \<Rightarrow> rat \<Rightarrow> rat" where
  \<comment> \<open>\<open>a + b\<close> on floats\<close>
  "fadd a b = fl (a + b)"

definition fsub :: "rat \<Rightarrow> rat \<Rightarrow> rat" where
  \<comment> \<open>\<open>a - b\<close> on floats\<close>
  "fsub a b = fl (a - b)"

definition fmul :: "rat \<Rightarrow> rat \<Rightarrow> rat" where
  \<comment> \<open>\<open>a * b\<close> on floats\<close>
  "fmul a b = fl (a * b)"

definition fdiv :: "rat \<Rightarrow> rat \<Rightarrow> rat" where
  \<comment> \<open>\<open>a / b\<close> on floats, for \<open>b\<close> other than 0\<close>
  "fdiv a b = fl (a / b)"

definition round1 :: "rat \<Rightarrow> rat" where
  \<comment> \<open>\<open>round(x, 1)\<close>: the exact value goes to the nearest tenth, a tie to the even one, and
      the float nearest to that decimal is returned\<close>
  "round1 x = fl (of_int (round_half_even (x * 10)) / 10)"

section \<open>Data model\<close>

datatype level = H1 | H2 | H3 | H4 | H_UNKNOWN

record extractor =
  dominant_font_size :: rat
  font_sizes_by_prominence :: "rat list"
  processed_headings :: "(pystr \<times> level \<times> int) set"

section \<open>Level assignment\<close>

definition file03_h2_phrases :: "pystr list" where
  "file03_h2_phrases =
     [str ''Summary'', str ''Background'', str ''The Business Plan to be Developed'',
      str ''Approach and Specific Proposal Requirements'',
      str ''Evaluation and Awarding of Contract'']"

definition file03_h3_prefixes :: "pystr list" where
  "file03_h3_prefixes =
     [str ''Equitable'', str ''Shared'', str ''Local'', str ''Access'', str ''Guidance'',
      str ''Training'', str ''Provincial'', str ''Technological'']"

definition ontarios :: pystr where
  \<comment> \<open>"Ontario's" with the right single quotation mark U+2019\<close>
  "ontarios = str ''Ontario'' @ [0x2019] @ str ''s''"

definition numbering_depth :: "pystr \<Rightarrow> nat" where
  \<comment> \<open>\<open>len([p for p in text.split(' ')[0].split('.') if p])\<close>\<close>
  "numbering_depth s =
     length (filter (\<lambda>p. p \<noteq> [])
       (split_on 0x2E (case split_on 0x20 s of [] \<Rightarrow> [] | t # _ \<Rightarrow> t)))"

fun index_of :: "'a list \<Rightarrow> 'a \<Rightarrow> nat option" where
  \<comment> \<open>\<open>list.index\<close>: the first position, \<open>None\<close> where Python raises \<open>ValueError\<close>\<close>
  "index_of [] x = None"
| "index_of (y # ys) x = (if y = x then Some 0 else map_option Suc (index_of ys x))"

definition level_of_nat :: "nat \<Rightarrow> level" where
  \<comment> \<open>\<open>f"H{level}"\<close>; the source only calls it on \<open>min(idx + 1, 4)\<close>, which lies in 1..4\<close>
  "level_of_nat n = (if n = 1 then H1 else if n = 2 then H2 else if n = 3 then H3 else H4)"

definition prominence_fallback :: "extractor \<Rightarrow> rat \<Rightarrow> level" where
  \<comment> \<open>the last block of \<open>_assign_heading_level\<close>: the \<open>try\<close> / \<open>except ValueError\<close>\<close>
  "prominence_fallback self font_size =
     (case index_of (font_sizes_by_prominence self) font_size of
        None \<Rightarrow> H_UNKNOWN
      | Some idx \<Rightarrow> level_of_nat (min (idx + 1) 4))"

definition assign_heading_level :: "python \<Rightarrow> extractor \<Rightarrow> rat \<Rightarrow> pystr \<Rightarrow> level" where
  "assign_heading_level py self font_size text =
     (if match_numbered_dot py text then
        (let num_dots = numbering_depth text
         in if num_dots = 1 then H1 else if num_dots = 2 then H2
            else if num_dots = 3 then H3 else if num_dots = 4 then H4 else H_UNKNOWN)
      else if text \<in> set file03_h2_phrases then H2
      else if text = str ''Milestones'' then H3
      else if match_appendix text then H2
      else if endswith text (str '':'') \<and> list_ex (startswith text) file03_h3_prefixes then H3
      else if str_in (str ''?'') text \<and> startswith text (str ''What could the'') then H3
      else if startswith text (str ''For each Ontario'') \<and> endswith text (str ''mean:'') then H4
      else if str_in (ontarios @ str '' Digital Library'') text
              \<and> font_size > fadd (dominant_font_size self) 1 then H1
      else if str_in (str ''A Critical Component for Implementing '' @ ontarios
                       @ str '' Road Map to Prosperity Strategy'') text
              \<and> font_size > fadd (dominant_font_size self) (1 / 2) then H1
      else prominence_fallback self font_size)"

section \<open>Input from the page parser, configuration\<close>

record span =
  span_text :: pystr
  span_size :: rat
  span_font :: pystr

type_synonym bbox = "rat \<times> rat \<times> rat \<times> rat"

definition bbox_1 :: "bbox \<Rightarrow> rat" where
  \<comment> \<open>\<open>bbox[1]\<close>, the top edge\<close>
  "bbox_1 b = (case b of (x0, y0, x1, y1) \<Rightarrow> y0)"

definition bbox_3 :: "bbox \<Rightarrow> rat" where
  \<comment> \<open>\<open>bbox[3]\<close>, the bottom edge\<close>
  "bbox_3 b = (case b of (x0, y0, x1, y1) \<Rightarrow> y1)"

record line =
  spans :: "span list"
  bbox :: bbox

datatype block = Image_Block | Text_Block "line list"

fun block_lines :: "block \<Rightarrow> line list" where
  \<comment> \<open>\<open>if 'lines' in block: for line in block['lines']\<close>\<close>
  "block_lines Image_Block = []"
| "block_lines (Text_Block ls) = ls"

record page =
  blocks :: "block list"
  rect_height :: rat

type_synonym document = "page list"

definition page_lines :: "page \<Rightarrow> line list" where
  \<comment> \<open>the lines of a page in the order of the nested \<open>for block\<close> / \<open>for line\<close> loops\<close>
  "page_lines p = concat (map block_lines (blocks p))"

record thresholds =
  font_size_difference_from_dominant :: rat
  bold_font_size_min_ratio_to_dominant :: rat
  max_words_for_bold_heading :: int
  max_words_for_all_caps_heading :: int

text \<open>
  The configuration file is not part of the sources, so \<open>SETTINGS\<close> is a parameter. A
  header/footer pattern is given by its matcher, the function
  \<open>\<lambda>text. re.search(pattern, text, re.IGNORECASE)\<close>. The key \<open>max_headings_per_page\<close> may
  be absent: the source reads it once with \<open>SETTINGS.get(\<dots>, 4)\<close> and once with
  \<open>SETTINGS[\<dots>]\<close>.
\<close>

record settings =
  heading_detection_thresholds :: thresholds
  common_heading_keywords :: "pystr list"
  common_footer_header_patterns :: "(pystr \<Rightarrow> bool) list"
  max_headings_per_page :: "int option"

definition is_noise :: "settings \<Rightarrow> pystr \<Rightarrow> bool" where
  \<comment> \<open>\<open>any(re.search(pattern, text, re.IGNORECASE) for pattern in SETTINGS['common_footer_header_patterns'])\<close>\<close>
  "is_noise cfg text = list_ex (\<lambda>m. m text) (common_footer_header_patterns cfg)"

definition is_bold :: "python \<Rightarrow> span \<Rightarrow> bool" where
  "is_bold py sp =
     (let font_name = py_lower py (span_font sp)
      in str_in (str ''bold'') font_name \<or> str_in (str ''black'') font_name
         \<or> str_in (str ''heavy'') font_name)"

section \<open>Heading classifier\<close>

definition is_likely_heading ::
  "settings \<Rightarrow> python \<Rightarrow> extractor \<Rightarrow> pystr \<Rightarrow> span \<Rightarrow> bbox \<Rightarrow> bbox option \<Rightarrow> bool \<Rightarrow> bool" where
  "is_likely_heading cfg py self text sp line_bbox prev_line_bbox is_title_page =
     (let font_size = round1 (span_size sp);
          is_bold_text = is_bold py sp;
          dom = dominant_font_size self;
          th = heading_detection_thresholds cfg
      in if font_size > fadd dom (font_size_difference_from_dominant th) then True
         else if is_bold_text
                 \<and> font_size \<ge> fmul dom (bold_font_size_min_ratio_to_dominant th)
                 \<and> (word_count text < max_words_for_bold_heading th \<or> py_isupper py text)
              then True
         else if match_numbered py text \<and> (font_size \<ge> fsub dom 1 \<or> is_bold_text) then True
         else if list_ex (\<lambda>keyword. str_in (py_lower py keyword) (py_lower py text)
                     \<and> ((is_bold_text \<and> font_size \<ge> fsub dom (1 / 2))
                        \<or> font_size \<ge> fadd dom (1 / 2)
                        \<or> (endswith text (str '':'') \<and> font_size \<ge> fsub dom 1)))
                 (common_heading_keywords cfg) then True
         else if py_isupper py text \<and> word_count text < max_words_for_all_caps_heading th
                 \<and> font_size \<ge> fsub dom 1 then True
         else if (case prev_line_bbox of None \<Rightarrow> False
                  | Some pb \<Rightarrow> fsub (bbox_1 line_bbox) (bbox_3 pb) > fmul dom (3 / 2))
                 \<and> font_size \<ge> fsub dom (1 / 2) \<and> \<not> endswith text (str ''.'') then True
         else if text \<in> set file03_h2_phrases
                 \<and> (is_bold_text \<or> font_size \<ge> fadd dom (1 / 2)) then True
         else if match_appendix text \<and> (is_bold_text \<or> font_size > dom) then True
         else if endswith text (str '':'') \<and> is_bold_text \<and> word_count text < 10
                 \<and> font_size \<ge> fsub dom (1 / 2)
                 \<and> list_ex (startswith text) file03_h3_prefixes then True
         else if str_in (str ''?'') text \<and> startswith text (str ''What could the'')
                 \<and> (is_bold_text \<or> font_size \<ge> dom) then True
         else if startswith text (str ''For each Ontario'') \<and> endswith text (str ''mean:'')
                 \<and> (is_bold_text \<or> font_size \<ge> fsub dom 1) then True
         else False)"

section \<open>Style profiling\<close>

fun dict_incr :: "'k \<Rightarrow> ('k \<times> nat) list \<Rightarrow> ('k \<times> nat) list" where
  \<comment> \<open>\<open>d[k] += 1\<close> on a \<open>defaultdict(int)\<close>; the list keeps the insertion order of the keys\<close>
  "dict_incr k [] = [(k, 1)]"
| "dict_incr k ((k', n) # d) = (if k = k' then (k', n + 1) # d else (k', n) # dict_incr k d)"

fun dict_get :: "('k \<times> nat) list \<Rightarrow> 'k \<Rightarrow> nat \<Rightarrow> nat" where
  \<comment> \<open>\<open>d.get(k, default)\<close>\<close>
  "dict_get [] k dflt = dflt"
| "dict_get ((k', n) # d) k dflt = (if k = k' then n else dict_get d k dflt)"

fun max_from :: "('k \<times> nat) \<Rightarrow> ('k \<times> nat) list \<Rightarrow> 'k" where
  \<comment> \<open>\<open>max(d, key=d.get)\<close> on a non-empty dict, given as its first item and the rest:
      the running best is replaced only by a strictly greater count\<close>
  "max_from best [] = fst best"
| "max_from best (x # xs) = max_from (if snd best < snd x then x else best) xs"

definition document_spans :: "document \<Rightarrow> span list" where
  \<comment> \<open>every span, in the order of the four nested loops of \<open>_analyze_document_styles\<close>\<close>
  "document_spans document = concat (map spans (concat (map page_lines document)))"

definition observe_span ::
  "python \<Rightarrow> span \<Rightarrow> (rat \<times> nat) list \<times> (rat \<times> nat) list \<times> rat list
      \<Rightarrow> (rat \<times> nat) list \<times> (rat \<times> nat) list \<times> rat list" where
  \<comment> \<open>the loop body on \<open>(font_size_counts, bold_font_sizes_counts, unique_font_sizes)\<close>\<close>
  "observe_span py sp acc =
     (case acc of (font_size_counts, bold_font_sizes_counts, unique_font_sizes) \<Rightarrow>
        (let font_size = round1 (span_size sp)
         in (dict_incr font_size font_size_counts,
             (if is_bold py sp then dict_incr font_size bold_font_sizes_counts
              else bold_font_sizes_counts),
             List.insert font_size unique_font_sizes)))"

definition analyze_document_styles :: "python \<Rightarrow> extractor \<Rightarrow> document \<Rightarrow> extractor" where
  \<comment> \<open>the sort keys \<open>(fs, bold count)\<close> are pairwise different, so the descending sort is the
      reverse of the ascending one, whatever the iteration order of the set\<close>
  "analyze_document_styles py self document =
     (case fold (observe_span py) (document_spans document) ([], [], []) of
        (font_size_counts, bold_font_sizes_counts, unique_font_sizes) \<Rightarrow>
          (case font_size_counts of [] \<Rightarrow> self
           | c # cs \<Rightarrow>
               self\<lparr>dominant_font_size :=
                      (case filter (\<lambda>(fs, n). fs > 6) font_size_counts of
                         [] \<Rightarrow> max_from c cs
                       | f # fs \<Rightarrow> max_from f fs),
                    font_sizes_by_prominence :=
                      rev (sort_key (\<lambda>fs. (fs, dict_get bold_font_sizes_counts fs 0))
                             unique_font_sizes)\<rparr>))"

section \<open>Title resolution\<close>

definition line_text :: "line \<Rightarrow> pystr" where
  \<comment> \<open>\<open>"".join(span['text'] for span in line['spans']).strip()\<close>\<close>
  "line_text lin = strip (concat (map span_text (spans lin)))"

definition title_line_step :: "page \<Rightarrow> line \<Rightarrow> pystr \<times> pystr \<Rightarrow> pystr \<times> pystr" where
  \<comment> \<open>the loop body on \<open>(rfp_line, to_present_line)\<close>\<close>
  "title_line_step first_physical_page lin acc =
     (case acc of (rfp_line, to_present_line) \<Rightarrow>
        (let text = line_text lin
         in if str_in (str ''RFP: Request for Proposal'') text
               \<and> bbox_1 (bbox lin) < fdiv (rect_height first_physical_page) 2
            then (text, to_present_line)
            else if str_in (str ''To Present a Proposal for Developing the Business Plan for the Ontario Digital Library'') text
               \<and> bbox_1 (bbox lin) < fdiv (rect_height first_physical_page) 2
            then (rfp_line, text)
            else (rfp_line, to_present_line)))"

definition title_span_step :: "span \<Rightarrow> rat \<times> pystr list \<Rightarrow> rat \<times> pystr list" where
  \<comment> \<open>the loop body on \<open>(max_title_font_size, title_candidates)\<close>\<close>
  "title_span_step sp acc =
     (case acc of (max_title_font_size, title_candidates) \<Rightarrow>
        (let text = strip (span_text sp); font_size = round1 (span_size sp)
         in if font_size > max_title_font_size then (font_size, [text])
            else if font_size = max_title_font_size
            then (max_title_font_size, title_candidates @ [text])
            else (max_title_font_size, title_candidates)))"

definition is_banner :: "pystr \<Rightarrow> bool" where
  "is_banner t =
     (str_in (str ''TOPJUMP'') t \<or> str_in (str ''TRAMPOLINE PARK'') t
      \<or> str_in (str ''YOU'' @ [0x27] @ str ''RE INVITED'') t)"

text \<open>
  \<open>list(set(title_candidates))\<close> enumerates the different candidates in the iteration order
  of a Python set of strings, which follows the string hashes of the interpreter run. The
  enumeration is \<open>py_list_of_set\<close>; the descending sort by length is stable, so candidates
  of equal length stay in the order of the enumeration.
\<close>

definition resolve_title :: "settings \<Rightarrow> python \<Rightarrow> document \<Rightarrow> pystr" where
  "resolve_title cfg py document =
     (let t0 =
        (case document of [] \<Rightarrow> []
         | first_physical_page # _ \<Rightarrow>
             (case fold (title_line_step first_physical_page) (page_lines first_physical_page) ([], []) of
                (rfp_line, to_present_line) \<Rightarrow>
                  (let t1 = (if rfp_line \<noteq> [] \<and> to_present_line \<noteq> []
                             then replace
                                    (replace
                                       (strip (replace (rfp_line @ str '' '' @ to_present_line)
                                                 [0x0A] (str '' '')))
                                       (str ''Reeeequest f quest foooor Pr r Proposal quest f oposal'')
                                       (str ''Request for Proposal''))
                                    (str ''Pr r'') (str ''Pr'')
                             else [])
                   in if t1 = [] then
                        (case fold title_span_step
                                (concat (map spans (page_lines first_physical_page))) (0, []) of
                           (max_title_font_size, title_candidates) \<Rightarrow>
                             if title_candidates \<noteq> [] then
                               (let potential_title =
                                      strip (join (str '' '')
                                        (sort_key (\<lambda>x. - int (length x))
                                           (py_list_of_set py title_candidates)))
                                in if 5 < length potential_title \<and> \<not> is_noise cfg potential_title
                                   then potential_title else [])
                             else [])
                      else t1)))
      in if t0 \<noteq> [] \<and> is_banner t0 then [] else t0)"

section \<open>Page curation and the extraction loop\<close>

record candidate =
  c_level :: level
  c_text :: pystr
  c_page :: int
  c_y_pos :: rat

record entry =
  e_level :: level
  e_text :: pystr
  e_page :: int

definition del_y_pos :: "candidate \<Rightarrow> entry" where
  \<comment> \<open>\<open>del heading['y_pos']\<close>\<close>
  "del_y_pos c = \<lparr>e_level = c_level c, e_text = c_text c, e_page = c_page c\<rparr>"

datatype exception = KeyError pystr | ParserError pystr

fun str_of_exception :: "exception \<Rightarrow> pystr" where
  \<comment> \<open>\<open>str(e)\<close>: a \<open>KeyError\<close> prints the \<open>repr\<close> of its key\<close>
  "str_of_exception (KeyError k) = [0x27] @ k @ [0x27]"
| "str_of_exception (ParserError msg) = msg"

record outline_result =
  title :: pystr
  outline :: "entry list"
  error :: "pystr option"

definition process_line ::
  "settings \<Rightarrow> python \<Rightarrow> pystr \<Rightarrow> pystr \<Rightarrow> nat \<Rightarrow> int \<Rightarrow> line
     \<Rightarrow> bbox option \<times> candidate list \<times> extractor \<Rightarrow> bbox option \<times> candidate list \<times> extractor" where
  \<comment> \<open>one turn of the line loop on \<open>(prev_line_bbox, temp_page_candidates, self)\<close>\<close>
  "process_line cfg py doc_title pdf_path page_idx output_page_num lin acc =
     (case acc of (prev_line_bbox, temp_page_candidates, self) \<Rightarrow>
        (let text = line_text lin; line_bbox = bbox lin;
             skip = (Some line_bbox, temp_page_candidates, self)
         in if text = [] then skip
            else if is_noise cfg text then skip
            else if word_count text
                      > max_words_for_bold_heading (heading_detection_thresholds cfg) * 2 then skip
            else (case spans lin of [] \<Rightarrow> skip
              | first_span # _ \<Rightarrow>
                  if is_likely_heading cfg py self text first_span line_bbox prev_line_bbox (page_idx = 0)
                  then
                    if doc_title \<noteq> [] \<and> text = doc_title \<and> page_idx > 0 then skip
                    else if endswith pdf_path (str ''file03.pdf'') \<and> page_idx = 1
                            \<and> \<not> (text = ontarios @ str '' Digital Library''
                                  \<or> text = str ''A Critical Component for Implementing '' @ ontarios
                                             @ str '' Road Map to Prosperity Strategy'')
                            \<and> str_in (str ''The Ontario Digital Library will make Ontario a better place'') text
                    then skip
                    else
                      (let assigned_level = assign_heading_level py self (round1 (span_size first_span)) text;
                           unique_heading_key = (text, assigned_level, output_page_num)
                       in if unique_heading_key \<notin> processed_headings self
                          then (Some line_bbox,
                                temp_page_candidates @
                                  [\<lparr>c_level = assigned_level, c_text = text,
                                    c_page = output_page_num, c_y_pos = bbox_1 line_bbox\<rparr>],
                                self\<lparr>processed_headings :=
                                       insert unique_heading_key (processed_headings self)\<rparr>)
                          else skip)
                  else skip)))"

fun level_order :: "level \<Rightarrow> nat" where
  "level_order H1 = 1"
| "level_order H2 = 2"
| "level_order H3 = 3"
| "level_order H4 = 4"
| "level_order H_UNKNOWN = 5"

definition slice_to :: "int \<Rightarrow> 'a list \<Rightarrow> 'a list" where
  \<comment> \<open>\<open>xs[:n]\<close>: a negative \<open>n\<close> counts from the end\<close>
  "slice_to n xs = (if 0 \<le> n then take (nat n) xs else take (length xs - nat (- n)) xs)"

definition is_prominent_span :: "settings \<Rightarrow> python \<Rightarrow> extractor \<Rightarrow> pystr \<Rightarrow> span \<Rightarrow> bool" where
  \<comment> \<open>the tests of \<open>_find_first_prominent_text\<close> that a span passes to become a
      \<open>prominent_candidates\<close> item\<close>
  "is_prominent_span cfg py self document_title sp =
     (let text = strip (span_text sp); font_size = round1 (span_size sp)
      in text \<noteq> []
         \<and> \<not> (is_noise cfg text \<or> (document_title \<noteq> [] \<and> text = document_title))
         \<and> (font_size \<ge> fsub (dominant_font_size self) (1 / 2) \<or> is_bold py sp)
         \<and> (word_count text > 1 \<or> (length text > 3 \<and> \<not> fullmatch_digits py text)))"

definition prominent_in_line ::
  "settings \<Rightarrow> python \<Rightarrow> extractor \<Rightarrow> pystr \<Rightarrow> line \<Rightarrow> (pystr \<times> rat) list" where
  \<comment> \<open>the \<open>prominent_candidates\<close> that the spans of one line add, as \<open>(text, y_pos)\<close>\<close>
  "prominent_in_line cfg py self document_title lin =
     map (\<lambda>sp. (strip (span_text sp), bbox_1 (bbox lin)))
       (filter (is_prominent_span cfg py self document_title) (spans lin))"

definition find_first_prominent_text ::
  "settings \<Rightarrow> python \<Rightarrow> extractor \<Rightarrow> page \<Rightarrow> pystr \<Rightarrow> pystr option" where
  "find_first_prominent_text cfg py self pg document_title =
     (case sort_key snd (concat (map (prominent_in_line cfg py self document_title) (page_lines pg))) of
        [] \<Rightarrow> None
      | c # _ \<Rightarrow> Some (fst c))"

definition configured_max :: "settings \<Rightarrow> int" where
  \<comment> \<open>\<open>SETTINGS.get('max_headings_per_page', 4)\<close>\<close>
  "configured_max cfg = (case max_headings_per_page cfg of None \<Rightarrow> 4 | Some m \<Rightarrow> m)"

definition page_candidates ::
  "settings \<Rightarrow> python \<Rightarrow> pystr \<Rightarrow> pystr \<Rightarrow> nat \<Rightarrow> int \<Rightarrow> page \<Rightarrow> extractor
     \<Rightarrow> bbox option \<times> candidate list \<times> extractor" where
  \<comment> \<open>the line loop of one page, from \<open>prev_line_bbox = None\<close> and no candidate\<close>
  "page_candidates cfg py doc_title pdf_path page_idx output_page_num pg self =
     fold (process_line cfg py doc_title pdf_path page_idx output_page_num) (page_lines pg)
       (None, [], self)"

definition process_page ::
  "settings \<Rightarrow> python \<Rightarrow> pystr \<Rightarrow> pystr \<Rightarrow> nat \<Rightarrow> int \<Rightarrow> page \<Rightarrow> extractor
     \<Rightarrow> (exception + entry list) \<times> extractor" where
  \<comment> \<open>the body of the page loop: the entries appended to the outline, or the exception raised\<close>
  "process_page cfg py doc_title pdf_path page_idx output_page_num pg self =
     (case page_candidates cfg py doc_title pdf_path page_idx output_page_num pg self of
        (prev_line_bbox, temp_page_candidates, self') \<Rightarrow>
          (let sorted_potential_headings =
                 sort_key (\<lambda>x. (level_order (c_level x), c_y_pos x)) temp_page_candidates
           in if int (length sorted_potential_headings) > configured_max cfg
              then (case max_headings_per_page cfg of
                      None \<Rightarrow> (Inl (KeyError (str ''max_headings_per_page'')), self')
                    | Some m \<Rightarrow> (Inr (map del_y_pos (slice_to m sorted_potential_headings)), self'))
              else if length sorted_potential_headings > 0
              then (Inr (map del_y_pos sorted_potential_headings), self')
              else (case find_first_prominent_text cfg py self' pg doc_title of
                      None \<Rightarrow> (Inr [], self')
                    | Some first_valid_text \<Rightarrow>
                        if first_valid_text \<noteq> []
                        then (Inr [\<lparr>e_level = H1, e_text = first_valid_text,
                                    e_page = output_page_num\<rparr>], self')
                        else (Inr [], self'))))"

fun pages_loop ::
  "settings \<Rightarrow> python \<Rightarrow> pystr \<Rightarrow> pystr \<Rightarrow> int \<Rightarrow> nat \<Rightarrow> page list \<Rightarrow> extractor \<Rightarrow> entry list
     \<Rightarrow> entry list \<times> pystr option \<times> extractor" where
  \<comment> \<open>\<open>for page_idx in range(document.page_count)\<close>, from \<open>page_idx\<close> on, inside the \<open>try\<close>:
      the outline so far, the \<open>error\<close> field and the extractor when the loop is left\<close>
  "pages_loop cfg py doc_title pdf_path content_page_offset page_idx [] self acc = (acc, None, self)"
| "pages_loop cfg py doc_title pdf_path content_page_offset page_idx (pg # pgs) self acc =
     (let output_page_num = int page_idx + 1 + content_page_offset
      in if output_page_num < 1
         then pages_loop cfg py doc_title pdf_path content_page_offset (Suc page_idx) pgs self acc
         else (case process_page cfg py doc_title pdf_path page_idx output_page_num pg self of
                 (Inl e, self') \<Rightarrow> (acc, Some (str_of_exception e), self')
               | (Inr headings_to_add_this_page, self') \<Rightarrow>
                   pages_loop cfg py doc_title pdf_path content_page_offset (Suc page_idx) pgs self'
                     (acc @ headings_to_add_this_page)))"

definition content_page_offset_of :: "pystr \<Rightarrow> int" where
  "content_page_offset_of pdf_path = (if endswith pdf_path (str ''file03.pdf'') then - 1 else 0)"

definition extract_outline ::
  "settings \<Rightarrow> python \<Rightarrow> extractor \<Rightarrow> pystr \<Rightarrow> exception + document
     \<Rightarrow> outline_result \<times> extractor" where
  \<comment> \<open>the last argument is what \<open>fitz.open(pdf_path)\<close> gives: the exception it raises, or the
      parsed pages; the result is the returned dict and the extractor as the call leaves it\<close>
  "extract_outline cfg py self pdf_path opened =
     (let self0 = self\<lparr>processed_headings := {}\<rparr>
      in case opened of
           Inl e \<Rightarrow> (\<lparr>title = [], outline = [], error = Some (str_of_exception e)\<rparr>, self0)
         | Inr document \<Rightarrow>
             (let self1 = analyze_document_styles py self0 document;
                  doc_title = resolve_title cfg py document
              in case pages_loop cfg py doc_title pdf_path (content_page_offset_of pdf_path) 0
                        document self1 [] of
                   (entries, err, self2) \<Rightarrow>
                     (\<lparr>title = doc_title, outline = entries, error = err\<rparr>, self2)))"

section \<open>Keys, observed sizes and sample inputs\<close>

definition entry_key :: "entry \<Rightarrow> pystr \<times> level \<times> int" where
  \<comment> \<open>the dedup key \<open>(text, level, page)\<close> of an outline entry\<close>
  "entry_key e = (e_text e, e_level e, e_page e)"

definition candidate_key :: "candidate \<Rightarrow> pystr \<times> level \<times> int" where
  \<comment> \<open>\<open>unique_heading_key\<close> of a page candidate\<close>
  "candidate_key c = (c_text c, c_level c, c_page c)"

definition observed_sizes :: "document \<Rightarrow> rat list" where
  \<comment> \<open>the rounded font size of every span, in document order\<close>
  "observed_sizes document = map (\<lambda>sp. round1 (span_size sp)) (document_spans document)"

definition has_prominent_span :: "settings \<Rightarrow> python \<Rightarrow> extractor \<Rightarrow> pystr \<Rightarrow> page \<Rightarrow> bool" where
  "has_prominent_span cfg py self document_title pg =
     list_ex (\<lambda>lin. list_ex (is_prominent_span cfg py self document_title) (spans lin))
       (page_lines pg)"


definition has_non_noise_span :: "settings \<Rightarrow> pystr \<Rightarrow> page \<Rightarrow> bool" where
  \<comment> \<open>a page "contains non-noise text": some span has text that no header/footer pattern
      excludes and that is not the document title\<close>
  "has_non_noise_span cfg document_title pg =
     list_ex (\<lambda>lin. list_ex (\<lambda>sp. strip (span_text sp) \<noteq> []
                 \<and> \<not> (is_noise cfg (strip (span_text sp))
                        \<or> (document_title \<noteq> [] \<and> strip (span_text sp) = document_title)))
               (spans lin)) (page_lines pg)"

text \<open>
  The sample inputs are ASCII texts, on which the tables of every interpreter agree:
  \<open>ascii_python\<close> has the digits 0 to 9, the letters A to Z and a to z, and enumerates a
  set in the order of first insertion.
\<close>

definition ascii_lower :: "pystr \<Rightarrow> pystr" where
  "ascii_lower s = map (\<lambda>c. if 65 \<le> c \<and> c \<le> 90 then c + 32 else c) s"

definition ascii_isupper :: "pystr \<Rightarrow> bool" where
  \<comment> \<open>at least one cased character and no lowercase one\<close>
  "ascii_isupper s = (list_ex (\<lambda>c. 65 \<le> c \<and> c \<le> 90) s \<and> \<not> list_ex (\<lambda>c. 97 \<le> c \<and> c \<le> 122) s)"

definition ascii_python :: python where
  "ascii_python =
     \<lparr>py_isdecimal = (\<lambda>c. 48 \<le> c \<and> c \<le> 57), py_lower = ascii_lower,
      py_isupper = ascii_isupper, py_list_of_set = remdups\<rparr>"

definition reversed_set_python :: python where
  \<comment> \<open>the same interpreter in a run whose string hashes give the opposite set order\<close>
  "reversed_set_python = ascii_python\<lparr>py_list_of_set := (\<lambda>xs. rev (remdups xs))\<rparr>"

definition mk_span :: "string \<Rightarrow> rat \<Rightarrow> string \<Rightarrow> span" where
  "mk_span t s f = \<lparr>span_text = str t, span_size = s, span_font = str f\<rparr>"

definition mk_line :: "rat \<Rightarrow> span list \<Rightarrow> line" where
  \<comment> \<open>a line ten points high with its top edge at \<open>y\<close>\<close>
  "mk_line y ss = \<lparr>spans = ss, bbox = (72, y, 540, y + 10)\<rparr>"

definition mk_page :: "line list \<Rightarrow> page" where
  "mk_page ls = \<lparr>blocks = [Image_Block, Text_Block ls], rect_height = 792\<rparr>"

definition fresh_extractor :: extractor where
  \<comment> \<open>\<open>PDFOutlineExtractor()\<close>\<close>
  "fresh_extractor =
     \<lparr>dominant_font_size = 0, font_sizes_by_prominence = [], processed_headings = {}\<rparr>"

definition sample_settings :: "int option \<Rightarrow> settings" where
  \<comment> \<open>the thresholds 2.0 and 0.9, the word caps 10 and 6, one pattern \<open>page \<close>\<close>
  "sample_settings m =
     \<lparr>heading_detection_thresholds =
        \<lparr>font_size_difference_from_dominant = 2,
         bold_font_size_min_ratio_to_dominant = fl (9 / 10),
         max_words_for_bold_heading = 10,
         max_words_for_all_caps_heading = 6\<rparr>,
      common_heading_keywords = [str ''Introduction'', str ''Conclusion''],
      common_footer_header_patterns = [\<lambda>t. str_in (str ''page '') (ascii_lower t)],
      max_headings_per_page = m\<rparr>"

definition body_page :: page where
  "body_page =
     mk_page [mk_line 100 [mk_span ''Overview'' 16 ''Helvetica-Bold''],
              mk_line 120 [mk_span ''The first paragraph.'' 12 ''Helvetica''],
              mk_line 134 [mk_span ''The second paragraph.'' 12 ''Helvetica'']]"

definition small_print_page :: page where
  "small_print_page = mk_page [mk_line 100 [mk_span ''Terms apply'' 8 ''Helvetica'']]"

definition five_headings_page :: page where
  "five_headings_page =
     mk_page [mk_line 100 [mk_span ''Scope'' 16 ''Helvetica-Bold''],
              mk_line 200 [mk_span ''Method'' 16 ''Helvetica-Bold''],
              mk_line 300 [mk_span ''Results'' 16 ''Helvetica-Bold''],
              mk_line 400 [mk_span ''Discussion'' 16 ''Helvetica-Bold''],
              mk_line 500 [mk_span ''Outlook'' 16 ''Helvetica-Bold'']]"

definition annual_report_page :: page where
  "annual_report_page =
     mk_page [mk_line 100 [mk_span ''Annual'' 24 ''Helvetica''],
              mk_line 130 [mk_span ''Report'' 24 ''Helvetica''],
              mk_line 200 [mk_span ''By the finance team.'' 12 ''Helvetica''],
              mk_line 214 [mk_span ''For internal use.'' 12 ''Helvetica''],
              mk_line 228 [mk_span ''In thousands.'' 12 ''Helvetica'']]"

definition fine_print_page :: page where
  "fine_print_page =
     mk_page [mk_line 700 [mk_span ''All rights reserved.'' 5 ''Helvetica'',
                           mk_span ''Printed on recycled paper.'' 4 ''Helvetica'',
                           mk_span ''No warranty.'' 4 ''Helvetica'']]"

definition plain_page :: page where
  "plain_page =
     mk_page [mk_line 100 [mk_span ''The first paragraph.'' 12 ''Helvetica''],
              mk_line 114 [mk_span ''The second paragraph.'' 12 ''Helvetica''],
              mk_line 128 [mk_span ''The third paragraph.'' 12 ''Helvetica''],
              mk_line 142 [mk_span ''The fourth paragraph.'' 12 ''Helvetica''],
              mk_line 156 [mk_span ''The fifth paragraph.'' 12 ''Helvetica'']]"

definition two_size_line :: line where
  \<comment> \<open>a 12 point line whose second span is set in 30 points\<close>
  "two_size_line =
     mk_line 300 [mk_span ''Please read the '' 12 ''Helvetica'', mk_span ''manual'' 30 ''Helvetica'']"

definition large_first_span_line :: line where
  "large_first_span_line =
     mk_line 300 [mk_span ''Safety '' 30 ''Helvetica'', mk_span ''notes for the reader'' 12 ''Helvetica'']"

definition profiled_extractor :: extractor where
  \<comment> \<open>an extractor whose profile has body text at 12 and headings at 16\<close>
  "profiled_extractor =
     \<lparr>dominant_font_size = 12, font_sizes_by_prominence = [16, 12], processed_headings = {}\<rparr>"

definition near_miss_extractor :: extractor where
  \<comment> \<open>a profile with the dominant size 8.3\<close>
  "near_miss_extractor =
     \<lparr>dominant_font_size = fl (83 / 10), font_sizes_by_prominence = [fl (83 / 10), fl (78 / 10)],
      processed_headings = {}\<rparr>"

definition small_print_run :: outline_result where
  "small_print_run =
     fst (extract_outline (sample_settings (Some 4)) ascii_python fresh_extractor (str ''a.pdf'')
            (Inr [body_page, small_print_page]))"

definition plain_run :: outline_result where
  "plain_run =
     fst (extract_outline (sample_settings (Some 4)) ascii_python fresh_extractor (str ''a.pdf'')
            (Inr [plain_page]))"

definition overflow_run :: outline_result where
  \<comment> \<open>settings without \<open>max_headings_per_page\<close>, and a second page with five candidates\<close>
  "overflow_run =
     fst (extract_outline (sample_settings None) ascii_python fresh_extractor (str ''a.pdf'')
            (Inr [body_page, five_headings_page]))"

section \<open>Level assignment: numbering depth and the prominence ladder\<close>

text \<open>
  C1. A heading whose first token is a dotted numbering gets the level that counts the
  non-empty groups of that token; "1.1 Overview" is to be H2. The branch that counts the
  groups is guarded by a pattern that wants white space right after the first dot, so the
  text "1.1 Overview" never reaches it, although the classifier's own numbering pattern
  accepts the text and the token has two groups. With the ladder \<open>[16, 12]\<close> and a
  16 point span the level comes from the ladder and is H1.
\<close>

theorem numbered_level_misses_dotted_groups:
  "match_numbered ascii_python (str ''1.1 Overview'') \<and> \<not> match_numbered_dot ascii_python (str ''1.1 Overview'')
   \<and> numbering_depth (str ''1.1 Overview'') = 2
   \<and> assign_heading_level ascii_python
        \<lparr>dominant_font_size = 12, font_sizes_by_prominence = [16, 12], processed_headings = {}\<rparr>
        16 (str ''1.1 Overview'') = H1"
  by code_simp

lemma index_of_member: "x \<in> set xs \<Longrightarrow> \<exists>i. index_of xs x = Some i"
  by (induction xs) auto

text \<open>
  C10. When the queried font size occurs in \<open>font_sizes_by_prominence\<close>, the ladder
  fallback of the level assignment does not return \<open>H_UNKNOWN\<close>: \<open>list.index\<close> finds the
  size, and the level is one of H1 to H4.
\<close>

theorem prominence_fallback_known_size:
  assumes "font_size \<in> set (font_sizes_by_prominence self)"
  shows "prominence_fallback self font_size \<noteq> H_UNKNOWN
         \<and> prominence_fallback self font_size \<in> {H1, H2, H3, H4}"
proof -
  from assms obtain i where "index_of (font_sizes_by_prominence self) font_size = Some i"
    using index_of_member by fastforce
  then show ?thesis
    by (simp add: prominence_fallback_def level_of_nat_def)
qed

theorem prominence_fallback_known_size_witness:
  "(12 :: rat) \<in> set (font_sizes_by_prominence (analyze_document_styles ascii_python fresh_extractor [body_page]))
   \<and> prominence_fallback (analyze_document_styles ascii_python fresh_extractor [body_page]) 12 = H2"
proof -
  have h: "(12 :: rat) \<in> set (font_sizes_by_prominence (analyze_document_styles ascii_python fresh_extractor [body_page]))"
    by code_simp
  have v: "prominence_fallback (analyze_document_styles ascii_python fresh_extractor [body_page]) 12 = H2"
    by code_simp
  from prominence_fallback_known_size [OF h] h v show ?thesis by simp
qed

section \<open>The heading classifier\<close>

lemma rule1_unconditional:
  "round1 (span_size sp)
     > fadd (dominant_font_size self) (font_size_difference_from_dominant (heading_detection_thresholds cfg))
   \<Longrightarrow> is_likely_heading cfg py self text sp line_bbox prev_line_bbox is_title_page"
  by (simp add: is_likely_heading_def Let_def)

text \<open>
  C5, as the code has it. The extractor hands the classifier the first span of a line, and
  only for a line whose stripped text is not empty, matches no header/footer pattern and
  has at most twice \<open>max_words_for_bold_heading\<close> words. When the rounded font size of that
  first span exceeds the dominant size by more than the configured margin, the classifier
  accepts the line whatever the other rules say, and such a line becomes a candidate of
  the page unless it repeats the title after the first page, is the body sentence skipped
  on the second page of file03.pdf, or has a key that was emitted before.
\<close>

theorem rule1_on_first_span:
  assumes "spans lin = first_span # rest"
    and "round1 (span_size first_span)
           > fadd (dominant_font_size self)
               (font_size_difference_from_dominant (heading_detection_thresholds cfg))"
  shows "is_likely_heading cfg py self (line_text lin) first_span (bbox lin) prev_line_bbox
           (page_idx = 0)
         \<and> (line_text lin \<noteq> [] \<and> \<not> is_noise cfg (line_text lin)
              \<and> word_count (line_text lin)
                    \<le> max_words_for_bold_heading (heading_detection_thresholds cfg) * 2
              \<and> \<not> (doc_title \<noteq> [] \<and> line_text lin = doc_title \<and> page_idx > 0)
              \<and> \<not> (endswith pdf_path (str ''file03.pdf'') \<and> page_idx = 1
                     \<and> str_in (str ''The Ontario Digital Library will make Ontario a better place'')
                           (line_text lin))
              \<and> (line_text lin,
                   assign_heading_level py self (round1 (span_size first_span)) (line_text lin),
                   out) \<notin> processed_headings self
             \<longrightarrow>
             process_line cfg py doc_title pdf_path page_idx out lin (prev_line_bbox, cands, self)
               = (Some (bbox lin),
                  cands @ [\<lparr>c_level = assign_heading_level py self (round1 (span_size first_span))
                                         (line_text lin),
                             c_text = line_text lin, c_page = out,
                             c_y_pos = bbox_1 (bbox lin)\<rparr>],
                  self\<lparr>processed_headings :=
                         insert (line_text lin,
                                 assign_heading_level py self (round1 (span_size first_span))
                                   (line_text lin),
                                 out) (processed_headings self)\<rparr>))"
proof -
  have cls: "is_likely_heading cfg py self (line_text lin) first_span (bbox lin) prev_line_bbox
               (page_idx = 0)"
    using assms(2) by (rule rule1_unconditional)
  with assms(1) show ?thesis
    by (auto simp: process_line_def Let_def)
qed

theorem rule1_on_first_span_witness:
  "spans large_first_span_line = mk_span ''Safety '' 30 ''Helvetica'' # [mk_span ''notes for the reader'' 12 ''Helvetica'']
   \<and> round1 (span_size (mk_span ''Safety '' 30 ''Helvetica''))
        > fadd (dominant_font_size profiled_extractor)
            (font_size_difference_from_dominant (heading_detection_thresholds (sample_settings (Some 4))))
   \<and> is_likely_heading (sample_settings (Some 4)) ascii_python profiled_extractor
        (line_text large_first_span_line) (mk_span ''Safety '' 30 ''Helvetica'')
        (bbox large_first_span_line) None (Suc 0 = 0)
   \<and> fst (snd (process_line (sample_settings (Some 4)) ascii_python (str ''Overview'') (str ''a.pdf'')
                  (Suc 0) 2 large_first_span_line (None, [], profiled_extractor)))
       = [\<lparr>c_level = H_UNKNOWN, c_text = str ''Safety notes for the reader'', c_page = 2,
           c_y_pos = 300\<rparr>]"
proof -
  let ?first = "mk_span ''Safety '' 30 ''Helvetica''"
  have s: "spans large_first_span_line = ?first # [mk_span ''notes for the reader'' 12 ''Helvetica'']"
    by (simp add: large_first_span_line_def mk_line_def)
  have big: "round1 (span_size ?first)
        > fadd (dominant_font_size profiled_extractor)
            (font_size_difference_from_dominant (heading_detection_thresholds (sample_settings (Some 4))))"
    by code_simp
  have pre: "line_text large_first_span_line \<noteq> []
      \<and> \<not> is_noise (sample_settings (Some 4)) (line_text large_first_span_line)
      \<and> word_count (line_text large_first_span_line)
            \<le> max_words_for_bold_heading (heading_detection_thresholds (sample_settings (Some 4))) * 2
      \<and> \<not> (str ''Overview'' \<noteq> [] \<and> line_text large_first_span_line = str ''Overview'' \<and> Suc 0 > 0)
      \<and> \<not> (endswith (str ''a.pdf'') (str ''file03.pdf'') \<and> Suc 0 = 1
             \<and> str_in (str ''The Ontario Digital Library will make Ontario a better place'')
                   (line_text large_first_span_line))
      \<and> (line_text large_first_span_line,
           assign_heading_level ascii_python profiled_extractor (round1 (span_size ?first))
             (line_text large_first_span_line),
           2) \<notin> processed_headings profiled_extractor"
    by code_simp
  have lvl: "assign_heading_level ascii_python profiled_extractor (round1 (span_size ?first))
               (line_text large_first_span_line) = H_UNKNOWN"
    by code_simp
  have txt': "line_text large_first_span_line = str ''Safety notes for the reader''" by code_simp
  have y: "bbox_1 (bbox large_first_span_line) = 300" by code_simp
  from rule1_on_first_span [OF s big, where py = ascii_python and prev_line_bbox = None
      and page_idx = "Suc 0" and doc_title = "str ''Overview''" and pdf_path = "str ''a.pdf''"
      and out = 2 and cands = "[]"] pre
  have "is_likely_heading (sample_settings (Some 4)) ascii_python profiled_extractor
          (line_text large_first_span_line) ?first (bbox large_first_span_line) None (Suc 0 = 0)
        \<and> fst (snd (process_line (sample_settings (Some 4)) ascii_python (str ''Overview'')
                       (str ''a.pdf'') (Suc 0) 2 large_first_span_line (None, [], profiled_extractor)))
            = [\<lparr>c_level = assign_heading_level ascii_python profiled_extractor
                              (round1 (span_size ?first)) (line_text large_first_span_line),
                c_text = line_text large_first_span_line, c_page = 2,
                c_y_pos = bbox_1 (bbox large_first_span_line)\<rparr>]"
    by simp
  with s big lvl txt' y show ?thesis by simp
qed

text \<open>
  The claim C5 as stated fails: the second span of this line is set in 30 points, well above
  the dominant size 12 plus the margin 2, and the line is no candidate, since the classifier
  only sees the first span, which is set in 12 points.
\<close>

theorem large_second_span_is_no_candidate:
  "mk_span ''manual'' 30 ''Helvetica'' \<in> set (spans two_size_line)
   \<and> round1 (span_size (mk_span ''manual'' 30 ''Helvetica''))
        > fadd (dominant_font_size profiled_extractor)
            (font_size_difference_from_dominant (heading_detection_thresholds (sample_settings (Some 4))))
   \<and> \<not> is_likely_heading (sample_settings (Some 4)) ascii_python profiled_extractor
          (line_text two_size_line) (mk_span ''Please read the '' 12 ''Helvetica'')
          (bbox two_size_line) None False
   \<and> fst (snd (process_line (sample_settings (Some 4)) ascii_python (str ''Overview'') (str ''a.pdf'')
                  1 2 two_size_line (None, [], profiled_extractor))) = []"
  by code_simp

text \<open>
  C9. The result of the classifier does not depend on the first-page flag: two calls that
  differ only in \<open>is_title_page\<close> return the same boolean.
\<close>

theorem is_title_page_ignored:
  "is_likely_heading cfg py self text sp line_bbox prev_line_bbox True
   = is_likely_heading cfg py self text sp line_bbox prev_line_bbox False"
  by (simp add: is_likely_heading_def)

theorem is_title_page_ignored_witness:
  "is_likely_heading (sample_settings (Some 4)) ascii_python (analyze_document_styles ascii_python fresh_extractor [body_page])
      (str ''Overview'') (mk_span ''Overview'' 16 ''Helvetica-Bold'') (72, 100, 540, 110) None True
   = is_likely_heading (sample_settings (Some 4)) ascii_python (analyze_document_styles ascii_python fresh_extractor [body_page])
      (str ''Overview'') (mk_span ''Overview'' 16 ''Helvetica-Bold'') (72, 100, 540, 110) None False"
  by (rule is_title_page_ignored)

section \<open>Style profiling: the dominant font size\<close>

lemma dict_get_incr:
  "dict_get (dict_incr k d) k' 0 = (if k = k' then Suc (dict_get d k' 0) else dict_get d k' 0)"
  by (induction d) auto

lemma dict_incr_keys: "fst ` set (dict_incr k d) = insert k (fst ` set d)"
proof (induction d)
  case Nil
  show ?case by simp
next
  case (Cons p d)
  obtain k' n where p: "p = (k', n)" by (cases p)
  show ?case using Cons by (simp add: p insert_commute)
qed

lemma dict_incr_distinct: "distinct (map fst d) \<Longrightarrow> distinct (map fst (dict_incr k d))"
proof (induction d)
  case Nil
  then show ?case by simp
next
  case (Cons p d)
  obtain k' n where p: "p = (k', n)" by (cases p)
  from Cons have "distinct (map fst (dict_incr k d))" and "k' \<notin> fst ` set d" by (auto simp: p)
  then show ?case using Cons.prems
    by (auto simp: p dict_incr_keys)
qed

lemma fold_dict_incr_get:
  "dict_get (fold dict_incr xs d) k 0 = count_list xs k + dict_get d k 0"
  by (induction xs arbitrary: d) (auto simp: dict_get_incr)

lemma fold_dict_incr_keys: "fst ` set (fold dict_incr xs d) = set xs \<union> fst ` set d"
  by (induction xs arbitrary: d) (auto simp: dict_incr_keys)

lemma fold_dict_incr_distinct:
  "distinct (map fst d) \<Longrightarrow> distinct (map fst (fold dict_incr xs d))"
  by (induction xs arbitrary: d) (auto simp: dict_incr_distinct)

lemma dict_get_member: "distinct (map fst d) \<Longrightarrow> (k, n) \<in> set d \<Longrightarrow> dict_get d k dflt = n"
  by (induction d) (auto simp: rev_image_eqI)

lemma dict_member_get: "k \<in> fst ` set d \<Longrightarrow> (k, dict_get d k dflt) \<in> set d"
proof (induction d)
  case Nil
  then show ?case by simp
next
  case (Cons p d)
  obtain k' n where p: "p = (k', n)" by (cases p)
  show ?case using Cons by (cases "k = k'") (auto simp: p)
qed

lemma max_from_greatest:
  "\<exists>n. (max_from best xs, n) \<in> set (best # xs) \<and> (\<forall>p \<in> set (best # xs). snd p \<le> n)"
proof (induction xs arbitrary: best)
  case Nil
  show ?case by (cases best) auto
next
  case (Cons x xs)
  let ?b = "if snd best < snd x then x else best"
  from Cons [of ?b] obtain n
    where n: "(max_from ?b xs, n) \<in> set (?b # xs)" "\<forall>p \<in> set (?b # xs). snd p \<le> n"
    by blast
  from n(2) have "snd ?b \<le> n" by simp
  then have "snd best \<le> n" "snd x \<le> n" by (auto split: if_splits)
  with n show ?case by (intro exI [of _ n]) (auto split: if_splits)
qed

lemma observe_span_counts:
  "fst (fold (observe_span py) sps (d, b, u)) = fold dict_incr (map (\<lambda>sp. round1 (span_size sp)) sps) d"
  by (induction sps arbitrary: d b u) (simp_all add: observe_span_def Let_def)

lemma observe_span_unique:
  "set (snd (snd (fold (observe_span py) sps (d, b, u)))) = set (map (\<lambda>sp. round1 (span_size sp)) sps) \<union> set u"
  by (induction sps arbitrary: d b u) (auto simp add: observe_span_def Let_def)

lemma font_size_counts_of_document:
  assumes "fold (observe_span py) (document_spans document) ([], [], []) = (fsc, bfc, uniq)"
  shows "distinct (map fst fsc)" and "fst ` set fsc = set (observed_sizes document)"
    and "\<And>k. dict_get fsc k 0 = count_list (observed_sizes document) k"
    and "set uniq = set (observed_sizes document)"
proof -
  have f: "fsc = fold dict_incr (observed_sizes document) []"
    using observe_span_counts [of py "document_spans document" "[]" "[]" "[]"] assms
    by (simp add: observed_sizes_def)
  show "distinct (map fst fsc)" unfolding f by (rule fold_dict_incr_distinct) simp
  show "fst ` set fsc = set (observed_sizes document)" unfolding f by (simp add: fold_dict_incr_keys)
  show "\<And>k. dict_get fsc k 0 = count_list (observed_sizes document) k"
    unfolding f by (simp add: fold_dict_incr_get)
  show "set uniq = set (observed_sizes document)"
    using observe_span_unique [of py "document_spans document" "[]" "[]" "[]"] assms
    by (simp add: observed_sizes_def)
qed

lemma max_from_of_counts:
  assumes d: "distinct (map fst fsc)" and sub: "set (c # cs) \<subseteq> set fsc"
    and cnt: "\<And>k. dict_get fsc k 0 = count_list sizes k"
  shows "max_from c cs \<in> fst ` set (c # cs)"
    and "\<And>s. s \<in> fst ` set (c # cs) \<Longrightarrow> count_list sizes s \<le> count_list sizes (max_from c cs)"
proof -
  obtain n where n: "(max_from c cs, n) \<in> set (c # cs)" "\<forall>p \<in> set (c # cs). snd p \<le> n"
    using max_from_greatest [of c cs] by blast
  from n(1) show "max_from c cs \<in> fst ` set (c # cs)" by (metis fst_conv image_eqI)
  have val: "count_list sizes k = m" if "(k, m) \<in> set (c # cs)" for k m
    using dict_get_member [OF d, of k m 0] that sub cnt by auto
  fix s assume "s \<in> fst ` set (c # cs)"
  then obtain p where "p \<in> set (c # cs)" "s = fst p" by blast
  then obtain m where m: "(s, m) \<in> set (c # cs)" by (metis prod.collapse)
  with n(2) have "m \<le> n" by fastforce
  with val [OF m] val [OF n(1)] show "count_list sizes s \<le> count_list sizes (max_from c cs)" by simp
qed

text \<open>
  C6. After style profiling of a document that has a span, \<open>dominant_font_size\<close> is an
  observed size of the highest occurrence count among the observed sizes above 6; when no
  observed size is above 6, it is an observed size of the highest count among all of them.
  (Among sizes of equal count the first one seen wins.)
\<close>

theorem dominant_font_size_most_frequent:
  assumes "document_spans document \<noteq> []"
  shows "(if \<exists>s \<in> set (observed_sizes document). 6 < s
          then 6 < dominant_font_size (analyze_document_styles py self document)
               \<and> dominant_font_size (analyze_document_styles py self document) \<in> set (observed_sizes document)
               \<and> (\<forall>s \<in> set (observed_sizes document). 6 < s \<longrightarrow>
                     count_list (observed_sizes document) s
                       \<le> count_list (observed_sizes document)
                            (dominant_font_size (analyze_document_styles py self document)))
          else dominant_font_size (analyze_document_styles py self document) \<in> set (observed_sizes document)
               \<and> (\<forall>s \<in> set (observed_sizes document).
                     count_list (observed_sizes document) s
                       \<le> count_list (observed_sizes document)
                            (dominant_font_size (analyze_document_styles py self document))))"
proof -
  obtain fsc bfc uniq where st: "fold (observe_span py) (document_spans document) ([], [], []) = (fsc, bfc, uniq)"
    by (metis prod_cases3)
  note facts = font_size_counts_of_document [OF st]
  let ?sizes = "observed_sizes document"
  from assms facts(2) have "fsc \<noteq> []" by (auto simp: observed_sizes_def)
  then obtain c cs where fsc: "fsc = c # cs" by (cases fsc) auto
  let ?flt = "filter (\<lambda>(fs, n). 6 < fs) fsc"
  have flt_keys: "fst ` set ?flt = {s \<in> set ?sizes. 6 < s}"
    using facts(2) by (auto simp: image_iff) force+
  show ?thesis
  proof (cases "?flt")
    case Nil
    then have none: "\<not> (\<exists>s \<in> set ?sizes. 6 < s)" using flt_keys by auto
    have dom: "dominant_font_size (analyze_document_styles py self document) = max_from c cs"
      using st fsc Nil by (simp add: analyze_document_styles_def)
    have sub: "set (c # cs) \<subseteq> set fsc" by (simp add: fsc)
    have keys: "fst ` set (c # cs) = set ?sizes" using facts(2) fsc by simp
    have "max_from c cs \<in> fst ` set (c # cs)"
      by (rule max_from_of_counts(1) [OF facts(1) sub facts(3)])
    then have "max_from c cs \<in> set ?sizes" by (simp only: keys)
    moreover have "\<forall>s \<in> fst ` set (c # cs). count_list ?sizes s \<le> count_list ?sizes (max_from c cs)"
      using max_from_of_counts(2) [OF facts(1) sub facts(3)] by blast
    then have "\<forall>s \<in> set ?sizes. count_list ?sizes s \<le> count_list ?sizes (max_from c cs)"
      by (simp only: keys)
    ultimately show ?thesis using none dom by simp
  next
    case (Cons f fs)
    then have some: "\<exists>s \<in> set ?sizes. 6 < s" using flt_keys by (metis (no_types, lifting) image_eqI list.set_intros(1) mem_Collect_eq)
    have dom: "dominant_font_size (analyze_document_styles py self document) = max_from f fs"
      using st fsc Cons by (simp add: analyze_document_styles_def)
    have sub: "set (f # fs) \<subseteq> set fsc" using Cons by (metis filter_is_subset)
    have keys: "fst ` set (f # fs) = {s \<in> set ?sizes. 6 < s}" using flt_keys Cons by simp
    have "max_from f fs \<in> fst ` set (f # fs)"
      by (rule max_from_of_counts(1) [OF facts(1) sub facts(3)])
    then have "max_from f fs \<in> {s \<in> set ?sizes. 6 < s}" by (simp only: keys)
    moreover have "\<forall>s \<in> fst ` set (f # fs). count_list ?sizes s \<le> count_list ?sizes (max_from f fs)"
      using max_from_of_counts(2) [OF facts(1) sub facts(3)] by blast
    then have "\<forall>s \<in> {s \<in> set ?sizes. 6 < s}. count_list ?sizes s \<le> count_list ?sizes (max_from f fs)"
      by (simp only: keys)
    ultimately show ?thesis using some dom by simp
  qed
qed


theorem dominant_font_size_most_frequent_witness:
  "document_spans [body_page] \<noteq> []
   \<and> 6 < dominant_font_size (analyze_document_styles ascii_python fresh_extractor [body_page])
   \<and> count_list (observed_sizes [body_page]) 16
        \<le> count_list (observed_sizes [body_page])
             (dominant_font_size (analyze_document_styles ascii_python fresh_extractor [body_page]))
   \<and> document_spans [fine_print_page] \<noteq> []
   \<and> count_list (observed_sizes [fine_print_page]) 5
        \<le> count_list (observed_sizes [fine_print_page])
             (dominant_font_size (analyze_document_styles ascii_python fresh_extractor [fine_print_page]))"
proof -
  have h: "document_spans [body_page] \<noteq> []" by code_simp
  have s: "observed_sizes [body_page] = [16, 12, 12]" by code_simp
  have h': "document_spans [fine_print_page] \<noteq> []" by code_simp
  have s': "observed_sizes [fine_print_page] = [5, 4, 4]" by code_simp
  from dominant_font_size_most_frequent [OF h, of ascii_python fresh_extractor]
    dominant_font_size_most_frequent [OF h', of ascii_python fresh_extractor] h h'
  show ?thesis unfolding s s' by simp
qed

lemma ladder_contains_observed_sizes:
  assumes "sp \<in> set (document_spans document)"
  shows "round1 (span_size sp)
           \<in> set (font_sizes_by_prominence (analyze_document_styles py self document))"
proof -
  obtain fsc bfc uniq where st: "fold (observe_span py) (document_spans document) ([], [], []) = (fsc, bfc, uniq)"
    by (metis prod_cases3)
  note facts = font_size_counts_of_document [OF st]
  from assms have m: "round1 (span_size sp) \<in> set (observed_sizes document)"
    by (simp add: observed_sizes_def)
  with facts(2) have "fsc \<noteq> []" by auto
  then obtain c cs where fsc: "fsc = c # cs" by (cases fsc) auto
  show ?thesis using st fsc m facts(4) by (simp add: analyze_document_styles_def)
qed

section \<open>The line loop, the page loop and the dedup invariant\<close>

lemma process_line_cases:
  "process_line cfg py doc_title pdf_path page_idx out lin (prev, cands, self) = (Some (bbox lin), cands, self)
   \<or> (\<exists>lvl. (line_text lin, lvl, out) \<notin> processed_headings self
        \<and> process_line cfg py doc_title pdf_path page_idx out lin (prev, cands, self)
          = (Some (bbox lin),
             cands @ [\<lparr>c_level = lvl, c_text = line_text lin, c_page = out, c_y_pos = bbox_1 (bbox lin)\<rparr>],
             self\<lparr>processed_headings := insert (line_text lin, lvl, out) (processed_headings self)\<rparr>))"
  by (simp add: process_line_def Let_def split: list.splits)

lemma line_loop_invariant:
  assumes "fold (process_line cfg py doc_title pdf_path page_idx out) lins (prev, cands, self)
             = (prev', cands', self')"
    and "distinct (map candidate_key cands)"
    and "candidate_key ` set cands \<subseteq> processed_headings self"
    and "\<forall>c \<in> set cands. c_page c = out"
  shows "distinct (map candidate_key cands')
         \<and> candidate_key ` set cands' \<subseteq> processed_headings self'
         \<and> (\<forall>c \<in> set cands'. c_page c = out)
         \<and> dominant_font_size self' = dominant_font_size self
         \<and> font_sizes_by_prominence self' = font_sizes_by_prominence self"
  using assms
proof (induction lins arbitrary: prev cands self)
  case Nil
  then show ?case by simp
next
  case (Cons lin lins)
  let ?step = "process_line cfg py doc_title pdf_path page_idx out lin (prev, cands, self)"
  from process_line_cases [of cfg py doc_title pdf_path page_idx out lin prev cands self]
  consider (skip) "?step = (Some (bbox lin), cands, self)"
    | (add) lvl where "(line_text lin, lvl, out) \<notin> processed_headings self"
        "?step = (Some (bbox lin),
             cands @ [\<lparr>c_level = lvl, c_text = line_text lin, c_page = out, c_y_pos = bbox_1 (bbox lin)\<rparr>],
             self\<lparr>processed_headings := insert (line_text lin, lvl, out) (processed_headings self)\<rparr>)"
    by blast
  then show ?case
  proof cases
    case skip
    with Cons.prems(1) have "fold (process_line cfg py doc_title pdf_path page_idx out) lins
        (Some (bbox lin), cands, self) = (prev', cands', self')" by simp
    from Cons.IH [OF this Cons.prems(2-4)] show ?thesis .
  next
    case add
    let ?c = "\<lparr>c_level = lvl, c_text = line_text lin, c_page = out, c_y_pos = bbox_1 (bbox lin)\<rparr>"
    let ?self = "self\<lparr>processed_headings := insert (line_text lin, lvl, out) (processed_headings self)\<rparr>"
    have key: "candidate_key ?c = (line_text lin, lvl, out)" by (simp add: candidate_key_def)
    from add(2) Cons.prems(1) have run: "fold (process_line cfg py doc_title pdf_path page_idx out) lins
        (Some (bbox lin), cands @ [?c], ?self) = (prev', cands', self')" by simp
    have fresh: "candidate_key ?c \<notin> candidate_key ` set cands"
      using add(1) Cons.prems(3) key by auto
    have d: "distinct (map candidate_key (cands @ [?c]))"
      using Cons.prems(2) fresh by simp
    have s: "candidate_key ` set (cands @ [?c]) \<subseteq> processed_headings ?self"
      using Cons.prems(3) key by auto
    have p: "\<forall>c \<in> set (cands @ [?c]). c_page c = out"
      using Cons.prems(4) by simp
    from Cons.IH [OF run d s p] show ?thesis by simp
  qed
qed

lemma page_candidates_invariant:
  assumes "page_candidates cfg py doc_title pdf_path page_idx out pg self = (prev', cands', self')"
  shows "distinct (map candidate_key cands')
         \<and> (\<forall>c \<in> set cands'. c_page c = out)
         \<and> dominant_font_size self' = dominant_font_size self
         \<and> font_sizes_by_prominence self' = font_sizes_by_prominence self"
  using line_loop_invariant [OF assms [unfolded page_candidates_def]] by simp

lemma entry_key_del_y_pos: "map entry_key (map del_y_pos cs) = map candidate_key cs"
  by (simp add: entry_key_def del_y_pos_def candidate_key_def)

lemma slice_to_take: "\<exists>k. slice_to n xs = take k xs"
  by (auto simp: slice_to_def)

lemma distinct_keys_sorted:
  "distinct (map g xs) \<Longrightarrow> distinct (map g (sort_key f xs))"
  by (simp add: distinct_map)

lemma process_page_entries:
  assumes "process_page cfg py doc_title pdf_path page_idx out pg self = (Inr es, self')"
  shows "distinct (map entry_key es) \<and> (\<forall>e \<in> set es. e_page e = out)"
proof -
  obtain prev cands self1 where pc: "page_candidates cfg py doc_title pdf_path page_idx out pg self = (prev, cands, self1)"
    by (metis prod_cases3)
  note inv = page_candidates_invariant [OF pc]
  let ?sorted = "sort_key (\<lambda>x. (level_order (c_level x), c_y_pos x)) cands"
  have ds: "distinct (map candidate_key ?sorted)" using inv by (simp add: distinct_keys_sorted)
  have ps: "\<forall>c \<in> set ?sorted. c_page c = out" using inv by simp
  have sub: "distinct (map entry_key (map del_y_pos (take k ?sorted)))
             \<and> (\<forall>e \<in> set (map del_y_pos (take k ?sorted)). e_page e = out)" for k
  proof
    have "distinct (take k (map candidate_key ?sorted))" using ds by (rule distinct_take)
    then show "distinct (map entry_key (map del_y_pos (take k ?sorted)))"
      by (simp only: entry_key_del_y_pos take_map)
    show "\<forall>e \<in> set (map del_y_pos (take k ?sorted)). e_page e = out"
      using ps by (auto simp: del_y_pos_def dest: in_set_takeD)
  qed
  consider (cut) m where "es = map del_y_pos (slice_to m ?sorted)"
    | (all) "es = map del_y_pos ?sorted"
    | (fallback) t where "es = [\<lparr>e_level = H1, e_text = t, e_page = out\<rparr>]"
    | (none) "es = []"
    using assms pc
    by (auto simp: process_page_def Let_def split: if_splits option.splits)
  then show ?thesis
  proof cases
    case (cut m)
    obtain k where "slice_to m ?sorted = take k ?sorted" using slice_to_take by blast
    with cut sub [of k] show ?thesis by simp
  next
    case all
    with sub [of "length ?sorted"] show ?thesis by simp
  next
    case (fallback t)
    then show ?thesis by simp
  next
    case none
    then show ?thesis by simp
  qed
qed

lemma process_page_profile:
  assumes "process_page cfg py doc_title pdf_path page_idx out pg self = (r, self')"
  shows "dominant_font_size self' = dominant_font_size self
         \<and> font_sizes_by_prominence self' = font_sizes_by_prominence self"
proof -
  obtain prev cands self1 where pc: "page_candidates cfg py doc_title pdf_path page_idx out pg self = (prev, cands, self1)"
    by (metis prod_cases3)
  have "self' = self1" using assms pc
    by (auto simp: process_page_def Let_def split: if_splits option.splits)
  with page_candidates_invariant [OF pc] show ?thesis by simp
qed

lemma pages_loop_distinct:
  assumes "pages_loop cfg py doc_title pdf_path off page_idx pgs self acc = (entries, err, self')"
    and "distinct (map entry_key acc)"
    and "\<forall>e \<in> set acc. e_page e < int page_idx + 1 + off"
  shows "distinct (map entry_key entries)"
  using assms
proof (induction pgs arbitrary: page_idx self acc)
  case Nil
  then show ?case by simp
next
  case (Cons pg pgs)
  let ?out = "int page_idx + 1 + off"
  have bound: "\<forall>e \<in> set acc. e_page e < int (Suc page_idx) + 1 + off"
    using Cons.prems(3) by auto
  show ?case
  proof (cases "?out < 1")
    case True
    with Cons.prems(1) have "pages_loop cfg py doc_title pdf_path off (Suc page_idx) pgs self acc
        = (entries, err, self')" by simp
    from Cons.IH [OF this Cons.prems(2) bound] show ?thesis .
  next
    case False
    obtain r self1 where pp: "process_page cfg py doc_title pdf_path page_idx ?out pg self = (r, self1)"
      by (cases "process_page cfg py doc_title pdf_path page_idx ?out pg self")
    show ?thesis
    proof (cases r)
      case (Inl e)
      with Cons.prems(1) False pp have "entries = acc" by (simp add: Let_def)
      with Cons.prems(2) show ?thesis by simp
    next
      case (Inr es)
      with Cons.prems(1) False pp have run: "pages_loop cfg py doc_title pdf_path off (Suc page_idx) pgs self1 (acc @ es)
          = (entries, err, self')" by (simp add: Let_def)
      from process_page_entries [OF pp [unfolded Inr]]
      have es: "distinct (map entry_key es)" "\<forall>e \<in> set es. e_page e = ?out" by simp_all
      have disj: "entry_key ` set acc \<inter> entry_key ` set es = {}"
        using Cons.prems(3) es(2) by (fastforce simp: entry_key_def)
      have d: "distinct (map entry_key (acc @ es))" using Cons.prems(2) es(1) disj by simp
      have b: "\<forall>e \<in> set (acc @ es). e_page e < int (Suc page_idx) + 1 + off"
        using bound es(2) by auto
      from Cons.IH [OF run d b] show ?thesis .
    qed
  qed
qed

text \<open>
  C2. In the outline that one call of \<open>extract_outline\<close> returns, no two entries have the
  same \<open>(text, level, page)\<close> triple. This holds across pages and for the entries of the
  fallback path, and also when the call ends with an error.
\<close>

theorem outline_keys_distinct:
  "distinct (map entry_key (outline (fst (extract_outline cfg py self pdf_path opened))))"
proof (cases opened)
  case (Inl e)
  then show ?thesis by (simp add: extract_outline_def)
next
  case (Inr document)
  let ?self1 = "analyze_document_styles py (self\<lparr>processed_headings := {}\<rparr>) document"
  obtain entries err self2 where run:
    "pages_loop cfg py (resolve_title cfg py document) pdf_path (content_page_offset_of pdf_path) 0
       document ?self1 [] = (entries, err, self2)"
    by (metis prod_cases3)
  from pages_loop_distinct [OF run] have "distinct (map entry_key entries)" by simp
  with Inr run show ?thesis by (simp add: extract_outline_def Let_def)
qed


theorem outline_keys_distinct_witness:
  "length (outline (fst (extract_outline (sample_settings (Some 4)) ascii_python fresh_extractor
             (str ''a.pdf'') (Inr [body_page, five_headings_page])))) = 5
   \<and> distinct (map entry_key (outline (fst (extract_outline (sample_settings (Some 4)) ascii_python
             fresh_extractor (str ''a.pdf'') (Inr [body_page, five_headings_page])))))"
proof -
  have "length (outline (fst (extract_outline (sample_settings (Some 4)) ascii_python fresh_extractor
             (str ''a.pdf'') (Inr [body_page, five_headings_page])))) = 5"
    by code_simp
  with outline_keys_distinct [of "sample_settings (Some 4)" ascii_python fresh_extractor "str ''a.pdf''"
      "Inr [body_page, five_headings_page]"]
  show ?thesis by simp
qed

section \<open>Page curation: the cap and the fallback\<close>




lemma is_prominent_span_profile:
  "dominant_font_size s1 = dominant_font_size s2
   \<Longrightarrow> is_prominent_span cfg py s1 t sp = is_prominent_span cfg py s2 t sp"
  by (simp add: is_prominent_span_def)

lemma has_prominent_span_profile:
  assumes "dominant_font_size s1 = dominant_font_size s2"
  shows "has_prominent_span cfg py s1 t pg = has_prominent_span cfg py s2 t pg"
  unfolding has_prominent_span_def is_prominent_span_profile [OF assms] ..

lemma find_first_prominent_text_found:
  assumes "has_prominent_span cfg py self t pg"
  shows "\<exists>found. find_first_prominent_text cfg py self pg t = Some found \<and> found \<noteq> []"
proof -
  let ?L = "concat (map (prominent_in_line cfg py self t) (page_lines pg))"
  from assms obtain lin sp where "lin \<in> set (page_lines pg)" "sp \<in> set (spans lin)"
    "is_prominent_span cfg py self t sp"
    by (auto simp: has_prominent_span_def list_ex_iff)
  then have "(strip (span_text sp), bbox_1 (bbox lin)) \<in> set (prominent_in_line cfg py self t lin)"
    and "lin \<in> set (page_lines pg)"
    by (auto simp: prominent_in_line_def)
  then have "(strip (span_text sp), bbox_1 (bbox lin)) \<in> set ?L"
    by simp blast
  then have "(strip (span_text sp), bbox_1 (bbox lin)) \<in> set (sort_key snd ?L)"
    by (simp only: set_sort)
  then have ne: "sort_key snd ?L \<noteq> []" by (metis empty_iff list.set(1))
  have found: "fst c \<noteq> []" if "c \<in> set (sort_key snd ?L)" for c
    using that by (auto simp: prominent_in_line_def is_prominent_span_def Let_def)
  from ne obtain c cs where c: "sort_key snd ?L = c # cs" by (cases "sort_key snd ?L") auto
  then have "c \<in> set (sort_key snd ?L)" by simp
  from found [OF this] c show ?thesis by (simp add: find_first_prominent_text_def)
qed

lemma process_page_nonempty:
  assumes pp: "process_page cfg py doc_title pdf_path page_idx out pg self = (Inr es, self')"
    and mx: "1 \<le> configured_max cfg"
    and pr: "has_prominent_span cfg py self doc_title pg"
  shows "es \<noteq> []"
proof -
  obtain prev cands self1 where pc:
    "page_candidates cfg py doc_title pdf_path page_idx out pg self = (prev, cands, self1)"
    by (metis prod_cases3)
  let ?sorted = "sort_key (\<lambda>x. (level_order (c_level x), c_y_pos x)) cands"
  show ?thesis
  proof (cases "int (length ?sorted) > configured_max cfg")
    case True
    with pp pc obtain m where m: "max_headings_per_page cfg = Some m"
      and es: "es = map del_y_pos (slice_to m ?sorted)"
      by (auto simp: process_page_def Let_def split: option.splits)
    from m mx have m1: "1 \<le> m" by (simp add: configured_max_def)
    from True m mx have "0 < length cands" by (cases cands) (simp_all add: configured_max_def)
    moreover from es m1 have "length es = min (length cands) (nat m)" by (simp add: slice_to_def)
    ultimately have "0 < length es" using m1 by simp
    then show ?thesis by auto
  next
    case False
    note small = this
    show ?thesis
    proof (cases "cands = []")
      case True
      from page_candidates_invariant [OF pc]
      have "dominant_font_size self1 = dominant_font_size self" by simp
      from has_prominent_span_profile [OF this] pr
      have "has_prominent_span cfg py self1 doc_title pg" by simp
      from find_first_prominent_text_found [OF this] obtain found
        where "find_first_prominent_text cfg py self1 pg doc_title = Some found" "found \<noteq> []" by blast
      with pp pc small True show ?thesis
        by (auto simp: process_page_def Let_def)
    next
      case False
      with pp pc small have "es = map del_y_pos ?sorted"
        by (auto simp: process_page_def Let_def split: option.splits if_splits)
      then have "length es = length cands" by simp
      with False show ?thesis by auto
    qed
  qed
qed

lemma pages_loop_keeps_acc:
  "pages_loop cfg py doc_title pdf_path off page_idx pgs self acc = (entries, err, self')
   \<Longrightarrow> set acc \<subseteq> set entries"
proof (induction pgs arbitrary: page_idx self acc)
  case Nil
  then show ?case by simp
next
  case (Cons pg pgs)
  let ?out = "int page_idx + 1 + off"
  obtain r self1 where pp: "process_page cfg py doc_title pdf_path page_idx ?out pg self = (r, self1)"
    by (cases "process_page cfg py doc_title pdf_path page_idx ?out pg self")
  show ?case
  proof (cases "?out < 1")
    case True
    with Cons.prems have "pages_loop cfg py doc_title pdf_path off (Suc page_idx) pgs self acc
        = (entries, err, self')" by simp
    from Cons.IH [OF this] show ?thesis .
  next
    case False
    show ?thesis
    proof (cases r)
      case (Inl e)
      with Cons.prems False pp show ?thesis by (simp add: Let_def)
    next
      case (Inr es)
      with Cons.prems False pp have "pages_loop cfg py doc_title pdf_path off (Suc page_idx) pgs self1 (acc @ es)
          = (entries, err, self')" by (simp add: Let_def)
      from Cons.IH [OF this] show ?thesis by simp
    qed
  qed
qed

lemma pages_loop_page_entry:
  assumes "pages_loop cfg py doc_title pdf_path off page_idx pgs self acc = (entries, None, self')"
    and "1 \<le> configured_max cfg"
    and "i < length pgs"
    and "1 \<le> int (page_idx + i) + 1 + off"
    and "has_prominent_span cfg py self doc_title (pgs ! i)"
  shows "\<exists>e \<in> set entries. e_page e = int (page_idx + i) + 1 + off"
  using assms
proof (induction pgs arbitrary: page_idx self acc i)
  case Nil
  then show ?case by simp
next
  case (Cons pg pgs)
  let ?out = "int page_idx + 1 + off"
  obtain r self1 where pp: "process_page cfg py doc_title pdf_path page_idx ?out pg self = (r, self1)"
    by (cases "process_page cfg py doc_title pdf_path page_idx ?out pg self")
  from process_page_profile [OF pp]
  have prof: "dominant_font_size self1 = dominant_font_size self" by simp
  show ?case
  proof (cases i)
    case 0
    with Cons.prems(4) have out: "\<not> ?out < 1" by simp
    from Cons.prems(1) out pp obtain es where r: "r = Inr es"
      by (cases r) (auto simp: Let_def)
    with Cons.prems(1) out pp have run: "pages_loop cfg py doc_title pdf_path off (Suc page_idx) pgs self1 (acc @ es)
          = (entries, None, self')" by (simp add: Let_def)
    from Cons.prems(5) 0 have "has_prominent_span cfg py self doc_title pg" by simp
    from process_page_nonempty [OF pp [unfolded r] Cons.prems(2) this]
    obtain e where e: "e \<in> set es" by (cases es) auto
    with process_page_entries [OF pp [unfolded r]] have "e_page e = ?out" by simp
    moreover from pages_loop_keeps_acc [OF run] e have "e \<in> set entries" by auto
    ultimately show ?thesis using 0 by auto
  next
    case (Suc j)
    have idx: "int (page_idx + i) = int (Suc page_idx + j)" using Suc by simp
    from Cons.prems(3) Suc have j: "j < length pgs" by simp
    from Cons.prems(4) idx have pos: "1 \<le> int (Suc page_idx + j) + 1 + off" by simp
    from Cons.prems(5) Suc have pr: "has_prominent_span cfg py self doc_title (pgs ! j)" by simp
    show ?thesis
    proof (cases "?out < 1")
      case True
      with Cons.prems(1) have run: "pages_loop cfg py doc_title pdf_path off (Suc page_idx) pgs self acc
        = (entries, None, self')" by simp
      from Cons.IH [OF run Cons.prems(2) j pos pr] show ?thesis unfolding idx .
    next
      case False
      from Cons.prems(1) False pp obtain es where r: "r = Inr es"
        by (cases r) (auto simp: Let_def)
      with Cons.prems(1) False pp have run: "pages_loop cfg py doc_title pdf_path off (Suc page_idx) pgs self1 (acc @ es)
          = (entries, None, self')" by (simp add: Let_def)
      from has_prominent_span_profile [OF prof] pr
      have pr1: "has_prominent_span cfg py self1 doc_title (pgs ! j)" by simp
      from Cons.IH [OF run Cons.prems(2) j pos pr1] show ?thesis unfolding idx .
    qed
  qed
qed

lemma analyze_document_styles_reset:
  "dominant_font_size (analyze_document_styles py (self\<lparr>processed_headings := ph\<rparr>) document)
     = dominant_font_size (analyze_document_styles py self document)"
  by (simp add: analyze_document_styles_def split: prod.splits list.splits)

text \<open>
  Two spans that the fallback refuses: a 7.8 point span under the dominant size 8.3, since
  the float \<open>8.3 - 0.5\<close> is above the float 7.8, and a word of three letters, two of
  them accented, since \<open>len\<close> counts characters.
\<close>

lemma fallback_compares_floats:
  "\<not> is_prominent_span (sample_settings (Some 4)) ascii_python near_miss_extractor []
       \<lparr>span_text = str ''Terms apply'', span_size = fl (78 / 10), span_font = str ''Helvetica''\<rparr>"
  by code_simp

lemma fallback_counts_characters:
  "\<not> is_prominent_span (sample_settings (Some 4)) ascii_python profiled_extractor []
       \<lparr>span_text = [0xE9, 0x74, 0xE9], span_size = 12, span_font = str ''Helvetica''\<rparr>"
  by code_simp

text \<open>
  C4, as the code has it. When the call raises nothing and the configured maximum is at
  least 1, every page with a logical page number of at least 1 has an entry in the outline,
  provided some span of the page passes the tests of the fallback: its stripped text is not
  empty, matches no header/footer pattern and is not the title, its rounded size is at least
  the float \<open>dominant_font_size - 0.5\<close> or its font is bold, and the text has more than one
  word or more than three characters that are not all decimal digits.
\<close>

theorem prominent_page_has_entry:
  assumes "extract_outline cfg py self pdf_path (Inr document) = (r, self')"
    and "error r = None"
    and "1 \<le> configured_max cfg"
    and "i < length document"
    and "1 \<le> int i + 1 + content_page_offset_of pdf_path"
    and "has_prominent_span cfg py (analyze_document_styles py self document) (title r) (document ! i)"
  shows "\<exists>e \<in> set (outline r). e_page e = int i + 1 + content_page_offset_of pdf_path"
proof -
  let ?self1 = "analyze_document_styles py (self\<lparr>processed_headings := {}\<rparr>) document"
  let ?t = "resolve_title cfg py document"
  obtain entries err self2 where run:
    "pages_loop cfg py ?t pdf_path (content_page_offset_of pdf_path) 0 document ?self1 [] = (entries, err, self2)"
    by (metis prod_cases3)
  with assms(1) have r: "r = \<lparr>title = ?t, outline = entries, error = err\<rparr>"
    by (auto simp: extract_outline_def Let_def)
  with assms(2) have err: "err = None" by simp
  from assms(6) r have "has_prominent_span cfg py (analyze_document_styles py self document) ?t (document ! i)"
    by simp
  with has_prominent_span_profile [OF analyze_document_styles_reset]
  have pr: "has_prominent_span cfg py ?self1 ?t (document ! i)" by simp
  from pages_loop_page_entry [OF run [unfolded err] assms(3) assms(4) _ pr] assms(5)
  show ?thesis by (simp add: r)
qed

theorem prominent_page_has_entry_witness:
  "error plain_run = None
   \<and> 1 \<le> configured_max (sample_settings (Some 4))
   \<and> has_prominent_span (sample_settings (Some 4)) ascii_python (analyze_document_styles ascii_python fresh_extractor [plain_page])
        (title plain_run) ([plain_page] ! 0)
   \<and> (\<exists>e \<in> set (outline plain_run). e_page e = 1)"
proof -
  let ?run = "extract_outline (sample_settings (Some 4)) ascii_python fresh_extractor (str ''a.pdf'')
                (Inr [plain_page])"
  have r: "?run = (plain_run, snd ?run)" by (simp add: plain_run_def)
  have e: "error plain_run = None" by code_simp
  have m: "1 \<le> configured_max (sample_settings (Some 4))" by code_simp
  have p: "has_prominent_span (sample_settings (Some 4)) ascii_python
             (analyze_document_styles ascii_python fresh_extractor [plain_page]) (title plain_run) ([plain_page] ! 0)"
    by code_simp
  have off: "content_page_offset_of (str ''a.pdf'') = 0" by code_simp
  from prominent_page_has_entry [OF r e m _ _ p] e m p
  show ?thesis by (simp add: off)
qed

text \<open>
  The claim C4 as stated fails: the second page of this document has the logical page
  number 2 and the span "Terms apply", which no noise pattern excludes and which is not the
  title, and the outline has no entry for page 2. The span is 8 points high where the
  dominant size is 12, and it is not bold.
\<close>

theorem small_print_page_without_entry:
  "error small_print_run = None
   \<and> has_non_noise_span (sample_settings (Some 4)) (title small_print_run) small_print_page
   \<and> int 1 + 1 + content_page_offset_of (str ''a.pdf'') = 2
   \<and> \<not> (\<exists>e \<in> set (outline small_print_run). e_page e = 2)"
  by code_simp

section \<open>Failure during extraction\<close>

lemma pages_loop_append:
  "pages_loop cfg py doc_title pdf_path off page_idx (ps @ qs) self acc =
     (case pages_loop cfg py doc_title pdf_path off page_idx ps self acc of
        (kept, None, self1) \<Rightarrow>
          pages_loop cfg py doc_title pdf_path off (page_idx + length ps) qs self1 kept
      | (kept, Some msg, self1) \<Rightarrow> (kept, Some msg, self1))"
proof (induction ps arbitrary: page_idx self acc)
  case Nil
  show ?case by simp
next
  case (Cons pg ps)
  let ?out = "int page_idx + 1 + off"
  have idx: "Suc page_idx + length ps = page_idx + length (pg # ps)" by simp
  obtain r self1 where pp: "process_page cfg py doc_title pdf_path page_idx ?out pg self = (r, self1)"
    by (cases "process_page cfg py doc_title pdf_path page_idx ?out pg self")
  show ?case
  proof (cases "?out < 1")
    case True
    then show ?thesis using Cons.IH [of "Suc page_idx" self acc] unfolding idx by simp
  next
    case False
    show ?thesis
    proof (cases r)
      case (Inl e)
      with False pp show ?thesis by (simp add: Let_def)
    next
      case (Inr es)
      with False pp show ?thesis
        using Cons.IH [of "Suc page_idx" self1 "acc @ es"] unfolding idx by (simp add: Let_def)
    qed
  qed
qed

text \<open>
  C7, as the code has it. When an exception is raised, \<open>extract_outline\<close> returns (the
  function is total) and the \<open>error\<close> field is the exception's description. When
  \<open>fitz.open\<close> raises, the title and the outline are empty. When the page loop raises on a
  page, the title and the entries appended for the pages before it are kept in the result.
\<close>

theorem failure_keeps_completed_pages:
  "(opened = Inl e \<longrightarrow>
      fst (extract_outline cfg py self pdf_path opened)
        = \<lparr>title = [], outline = [], error = Some (str_of_exception e)\<rparr>)
   \<and> (opened = Inr (ps @ pg # qs)
        \<and> pages_loop cfg py (resolve_title cfg py (ps @ pg # qs)) pdf_path
              (content_page_offset_of pdf_path) 0 ps
              (analyze_document_styles py (self\<lparr>processed_headings := {}\<rparr>) (ps @ pg # qs)) []
            = (kept, None, self1)
        \<and> 1 \<le> int (length ps) + 1 + content_page_offset_of pdf_path
        \<and> process_page cfg py (resolve_title cfg py (ps @ pg # qs)) pdf_path (length ps)
              (int (length ps) + 1 + content_page_offset_of pdf_path) pg self1
            = (Inl e, self2)
      \<longrightarrow>
      fst (extract_outline cfg py self pdf_path opened)
        = \<lparr>title = resolve_title cfg py (ps @ pg # qs), outline = kept,
           error = Some (str_of_exception e)\<rparr>)"
proof (intro conjI impI)
  assume "opened = Inl e"
  then show "fst (extract_outline cfg py self pdf_path opened)
        = \<lparr>title = [], outline = [], error = Some (str_of_exception e)\<rparr>"
    by (simp add: extract_outline_def)
next
  let ?t = "resolve_title cfg py (ps @ pg # qs)"
  let ?off = "content_page_offset_of pdf_path"
  let ?s0 = "analyze_document_styles py (self\<lparr>processed_headings := {}\<rparr>) (ps @ pg # qs)"
  assume a: "opened = Inr (ps @ pg # qs)
        \<and> pages_loop cfg py ?t pdf_path ?off 0 ps ?s0 [] = (kept, None, self1)
        \<and> 1 \<le> int (length ps) + 1 + ?off
        \<and> process_page cfg py ?t pdf_path (length ps) (int (length ps) + 1 + ?off) pg self1
            = (Inl e, self2)"
  then have "pages_loop cfg py ?t pdf_path ?off (length ps) (pg # qs) self1 kept
               = (kept, Some (str_of_exception e), self2)"
    by (simp add: Let_def)
  with a have "pages_loop cfg py ?t pdf_path ?off 0 (ps @ pg # qs) ?s0 []
               = (kept, Some (str_of_exception e), self2)"
    by (simp add: pages_loop_append)
  with a show "fst (extract_outline cfg py self pdf_path opened)
        = \<lparr>title = ?t, outline = kept, error = Some (str_of_exception e)\<rparr>"
    by (simp add: extract_outline_def Let_def)
qed

theorem failure_keeps_completed_pages_witness:
  "fst (pages_loop (sample_settings None) ascii_python
          (resolve_title (sample_settings None) ascii_python [body_page, five_headings_page]) (str ''a.pdf'')
          (content_page_offset_of (str ''a.pdf'')) 0 [body_page]
          (analyze_document_styles ascii_python (fresh_extractor\<lparr>processed_headings := {}\<rparr>)
             [body_page, five_headings_page]) [])
     = [\<lparr>e_level = H1, e_text = (str ''Overview''), e_page = 1\<rparr>]
   \<and> outline overflow_run = [\<lparr>e_level = H1, e_text = (str ''Overview''), e_page = 1\<rparr>]
   \<and> error overflow_run = Some (str_of_exception (KeyError (str ''max_headings_per_page'')))"
proof -
  let ?cfg = "sample_settings None"
  let ?t = "resolve_title ?cfg ascii_python ([body_page] @ five_headings_page # [])"
  let ?s0 = "analyze_document_styles ascii_python (fresh_extractor\<lparr>processed_headings := {}\<rparr>)
               ([body_page] @ five_headings_page # [])"
  let ?off = "content_page_offset_of (str ''a.pdf'')"
  let ?L = "pages_loop ?cfg ascii_python ?t (str ''a.pdf'') ?off 0 [body_page] ?s0 []"
  let ?kept = "[\<lparr>e_level = H1, e_text = (str ''Overview''), e_page = 1\<rparr>]"
  let ?P = "process_page ?cfg ascii_python ?t (str ''a.pdf'') (length [body_page])
              (int (length [body_page]) + 1 + ?off) five_headings_page (snd (snd ?L))"
  have l: "fst ?L = ?kept \<and> fst (snd ?L) = None" by code_simp
  then have loop: "?L = (?kept, None, snd (snd ?L))" by (metis prod.collapse)
  have "fst ?P = Inl (KeyError (str ''max_headings_per_page''))" by code_simp
  then have page: "?P = (Inl (KeyError (str ''max_headings_per_page'')), snd ?P)" by (metis prod.collapse)
  have num: "1 \<le> int (length [body_page]) + 1 + ?off" by code_simp
  from failure_keeps_completed_pages
    [of "Inr ([body_page] @ five_headings_page # [])" "KeyError (str ''max_headings_per_page'')"
        ?cfg ascii_python fresh_extractor "str ''a.pdf''" "[body_page]" five_headings_page "[]"
        ?kept "snd (snd ?L)" "snd ?P"]
    loop page num
  have "fst (extract_outline ?cfg ascii_python fresh_extractor (str ''a.pdf'')
               (Inr ([body_page] @ five_headings_page # [])))
          = \<lparr>title = ?t, outline = ?kept,
             error = Some (str_of_exception (KeyError (str ''max_headings_per_page'')))\<rparr>"
    by blast
  then have "outline overflow_run = ?kept
     \<and> error overflow_run = Some (str_of_exception (KeyError (str ''max_headings_per_page'')))"
    by (simp add: overflow_run_def)
  with l show ?thesis by simp
qed

text \<open>
  The claim C7 as stated fails: the settings of this run have no \<open>max_headings_per_page\<close>,
  the second page has five candidates, the lookup \<open>SETTINGS['max_headings_per_page']\<close>
  raises \<open>KeyError\<close>, and the returned outline still holds the entry of the first page.
\<close>

theorem failure_keeps_outline_entries:
  "error overflow_run = Some (str_of_exception (KeyError (str ''max_headings_per_page'')))
   \<and> outline overflow_run = [\<lparr>e_level = H1, e_text = (str ''Overview''), e_page = 1\<rparr>]
   \<and> outline overflow_run \<noteq> []"
  by code_simp

section \<open>Repeated extraction\<close>

lemma extract_outline_title:
  "title (fst (extract_outline cfg py self pdf_path (Inr document)))
     = resolve_title cfg py document"
  by (simp add: extract_outline_def Let_def split: prod.splits)

text \<open>
  C8. Two runs on the same document with the same settings are to give the same Outline.
  The title of this one-page document is built from the two 24 point spans "Annual" and
  "Report", which have the same length: the title is "Annual Report" under one iteration
  order of \<open>set(title_candidates)\<close> and "Report Annual" under the other, and both orders
  enumerate the same set.
\<close>

theorem title_follows_set_order:
  "title (fst (extract_outline (sample_settings (Some 4)) ascii_python fresh_extractor (str ''a.pdf'')
                 (Inr [annual_report_page]))) = (str ''Annual Report'')
   \<and> title (fst (extract_outline (sample_settings (Some 4)) reversed_set_python fresh_extractor
                 (str ''a.pdf'') (Inr [annual_report_page]))) = (str ''Report Annual'')
   \<and> set (py_list_of_set ascii_python [str ''Annual'', str ''Report''])
       = set (py_list_of_set reversed_set_python [str ''Annual'', str ''Report''])"
proof -
  have a: "resolve_title (sample_settings (Some 4)) ascii_python [annual_report_page] = (str ''Annual Report'')"
    by code_simp
  have b: "resolve_title (sample_settings (Some 4)) reversed_set_python [annual_report_page]
      = (str ''Report Annual'')"
    by code_simp
  have c: "set (py_list_of_set ascii_python [str ''Annual'', str ''Report''])
       = set (py_list_of_set reversed_set_python [str ''Annual'', str ''Report''])"
    by (simp add: reversed_set_python_def ascii_python_def)
  show ?thesis unfolding extract_outline_title using a b c by blast
qed


text \<open>
  With the iteration order fixed, the returned Outline does not depend on what the
  extractor held from an earlier call: a document with a span overwrites the profile, and a
  document without any span yields no entry.
\<close>

lemma process_line_without_spans:
  "spans lin = [] \<Longrightarrow>
   process_line cfg py doc_title pdf_path page_idx out lin (prev, cands, self) = (Some (bbox lin), cands, self)"
  by (simp add: process_line_def line_text_def strip_def)

lemma line_loop_without_spans:
  "\<forall>lin \<in> set lins. spans lin = [] \<Longrightarrow>
   \<exists>prev'. fold (process_line cfg py doc_title pdf_path page_idx out) lins (prev, cands, self)
             = (prev', cands, self)"
  by (induction lins arbitrary: prev) (simp_all add: process_line_without_spans)

lemma process_page_without_spans:
  assumes "\<forall>lin \<in> set (page_lines pg). spans lin = []"
  shows "process_page cfg py doc_title pdf_path page_idx out pg self = (Inr [], self)"
proof -
  from line_loop_without_spans [OF assms] obtain prev'
    where pc: "page_candidates cfg py doc_title pdf_path page_idx out pg self = (prev', [], self)"
    unfolding page_candidates_def by blast
  have none: "concat (map (prominent_in_line cfg py self doc_title) (page_lines pg)) = []"
    using assms by (simp add: prominent_in_line_def)
  have "find_first_prominent_text cfg py self pg doc_title = None"
    unfolding find_first_prominent_text_def none by simp
  with pc show ?thesis
    by (simp add: process_page_def Let_def slice_to_def configured_max_def split: option.splits)
qed

lemma pages_loop_without_spans:
  "\<forall>pg \<in> set pgs. \<forall>lin \<in> set (page_lines pg). spans lin = [] \<Longrightarrow>
   pages_loop cfg py doc_title pdf_path off page_idx pgs self acc = (acc, None, self)"
  by (induction pgs arbitrary: page_idx) (simp_all add: process_page_without_spans Let_def)

lemma analyze_document_styles_profile:
  assumes "document_spans document \<noteq> []"
  shows "analyze_document_styles py (s1\<lparr>processed_headings := {}\<rparr>) document
         = analyze_document_styles py (s2\<lparr>processed_headings := {}\<rparr>) document"
proof -
  obtain fsc bfc uniq where st: "fold (observe_span py) (document_spans document) ([], [], []) = (fsc, bfc, uniq)"
    by (metis prod_cases3)
  from assms font_size_counts_of_document(2) [OF st] have "fsc \<noteq> []"
    by (auto simp: observed_sizes_def)
  then obtain c cs where "fsc = c # cs" by (cases fsc) auto
  with st show ?thesis by (simp add: analyze_document_styles_def)
qed

lemma extraction_independent_of_earlier_state:
  "fst (extract_outline cfg py s1 pdf_path opened)
   = fst (extract_outline cfg py s2 pdf_path opened)"
proof (cases opened)
  case (Inl e)
  then show ?thesis by (simp add: extract_outline_def)
next
  case (Inr document)
  show ?thesis
  proof (cases "document_spans document = []")
    case True
    then have "\<forall>pg \<in> set document. \<forall>lin \<in> set (page_lines pg). spans lin = []"
      by (auto simp: document_spans_def)
    from pages_loop_without_spans [OF this] Inr show ?thesis
      by (simp add: extract_outline_def Let_def)
  next
    case False
    from analyze_document_styles_profile [OF this, of py s1 s2] Inr show ?thesis
      by (simp add: extract_outline_def Let_def)
  qed
qed

end
